theory Spec2Isabelle
  imports Main "HOL-Library.AList"
begin

section \<open>The registry transport of \<open>docker_http_.py\<close>\<close>

text \<open>
  A shallow embedding of the module \<open>containerregistry/client/v2_2/docker_http_.py\<close>:
  the diagnostic decoder, the construction of a \<open>Transport\<close> (ping and token exchange),
  \<open>Request\<close> with its single retry on 401, \<open>PaginatedRequest\<close> and
  \<open>ParseNextLinkHeader\<close>.

  Python exceptions are values of the type \<open>exn\<close>; a function that may raise returns
  \<open>exn + 'a\<close> with \<open>Inl\<close> for the exception. The attributes of the \<open>Transport\<close>
  object are a record that is passed in and returned; an attribute that has not been
  assigned yet is \<open>None\<close>, and reading it raises \<open>AttributeError\<close> as in Python.
  The HTTP transport underneath (\<open>httplib2\<close>) is a script of responses that are handed
  out one per call, together with the log of the requests it received.
\<close>

subsection \<open>Python strings\<close>

text \<open>\<open>s.startswith(p)\<close>\<close>

definition startswith :: "string \<Rightarrow> string \<Rightarrow> bool" where
  "startswith s p = (take (length p) s = p)"

text \<open>\<open>s.split(c)\<close> for a one-character separator: every separator cuts, empty fields are kept.\<close>

fun split_on :: "char \<Rightarrow> string \<Rightarrow> string list" where
  "split_on c [] = [[]]"
| "split_on c (x # xs) =
     (if x = c then [] # split_on c xs
      else (case split_on c xs of [] \<Rightarrow> [[x]] | w # ws \<Rightarrow> (x # w) # ws))"

text \<open>\<open>s.strip(cs)\<close>: drops the characters of \<open>cs\<close> from both ends.\<close>

definition strip :: "string \<Rightarrow> string \<Rightarrow> string" where
  "strip cs s = rev (dropWhile (\<lambda>c. c \<in> set cs) (rev (dropWhile (\<lambda>c. c \<in> set cs) s)))"

text \<open>\<open>sep.join(xs)\<close>\<close>

fun join :: "string \<Rightarrow> string list \<Rightarrow> string" where
  "join sep [] = []"
| "join sep [x] = x"
| "join sep (x # y # ys) = x @ sep @ join sep (y # ys)"

text \<open>\<open>k in s\<close> for two strings: \<open>k\<close> occurs in \<open>s\<close> as a contiguous piece.\<close>

fun str_contains :: "string \<Rightarrow> string \<Rightarrow> bool" where
  "str_contains [] k = (k = [])"
| "str_contains (c # cs) k = (startswith (c # cs) k \<or> str_contains cs k)"

text \<open>\<open>'%d' % n\<close> for an integer.\<close>

definition digit_char :: "nat \<Rightarrow> char" where
  "digit_char d = char_of (48 + d)"

fun digits :: "nat \<Rightarrow> string" where
  "digits n = (if n < 10 then [digit_char n] else digits (n div 10) @ [digit_char (n mod 10)])"

declare digits.simps [simp del]

definition show_int :: "int \<Rightarrow> string" where
  "show_int i = (if i < 0 then CHR ''-'' # digits (nat (- i)) else digits (nat i))"

text \<open>Truthiness of an optional string argument: \<open>None\<close> and \<open>''\<close> are false.\<close>

fun truthy :: "string option \<Rightarrow> bool" where
  "truthy None = False"
| "truthy (Some s) = (s \<noteq> [])"

subsection \<open>Decoded JSON, responses and exceptions\<close>

text \<open>
  What \<open>json.loads\<close> returns. A JSON object is a dictionary; it is kept as an association
  list, looked up with \<open>map_of\<close>, and iterated in the order of the list.
\<close>

datatype json =
    JNull
  | JBool bool
  | JNumber int
  | JString string
  | JArray "json list"
  | JObject "(string \<times> json) list"

text \<open>An \<open>httplib2.Response\<close>: the status and the dictionary of (lower-case) headers.\<close>

record response =
  status :: int
  resp_headers :: "(string \<times> string) list"

text \<open>The arguments of one call of \<open>self._transport.request(url, method, body=, headers=)\<close>.\<close>

record http_request =
  req_url :: string
  req_method :: string
  req_body :: "string option"
  req_headers :: "(string \<times> string) list"

text \<open>\<open>class Diagnostic\<close> keeps the decoded element of the \<open>errors\<close> array as it is.\<close>

datatype Diagnostic = Diagnostic json

datatype exn =
    BadStateException string
  | V2DiagnosticException response "Diagnostic list"
  | AttributeError
  | KeyError string
  | TypeError
  | ValueError
  | UnboundLocalError
  | TransportError

text \<open>
  The accessors \<open>code\<close>, \<open>message\<close> and \<open>detail\<close> are \<open>self._error.get(k)\<close>: on a
  dictionary the value or \<open>None\<close>, on anything else an \<open>AttributeError\<close>.
\<close>

fun diag_get :: "string \<Rightarrow> Diagnostic \<Rightarrow> exn + json option" where
  "diag_get k (Diagnostic (JObject kvs)) = Inr (map_of kvs k)"
| "diag_get k (Diagnostic _) = Inl AttributeError"

definition code :: "Diagnostic \<Rightarrow> exn + json option" where
  "code d = diag_get ''code'' d"

definition message :: "Diagnostic \<Rightarrow> exn + json option" where
  "message d = diag_get ''message'' d"

definition detail :: "Diagnostic \<Rightarrow> exn + json option" where
  "detail d = diag_get ''detail'' d"

subsection \<open>What the module takes from outside\<close>

text \<open>
  The library functions and constants the module uses but does not define:
  \<open>json.loads\<close> (\<open>None\<close> when it raises), \<open>urllib.urlencode\<close>,
  \<open>docker_name.USER_AGENT\<close>, the \<open>scope\<close> method of the resource name, and Python's
  \<open>%s\<close> rendering of a decoded JSON value that is not a string.
\<close>

record env =
  loads :: "string \<Rightarrow> json option"
  urlencode :: "(string \<times> string) list \<Rightarrow> string"
  USER_AGENT :: string
  name_scope :: "string \<Rightarrow> string"
  render :: "json \<Rightarrow> string"

text \<open>
  Modelled from the spec: the class \<open>Bearer\<close> of \<open>v2_2.docker_creds\<close>, which is not among
  the sources. The spec: a Bearer credential wraps the token value, and its header value
  is \<open>Bearer <token>\<close>.
\<close>

datatype creds = Bearer json

fun Get :: "env \<Rightarrow> creds \<Rightarrow> string" where
  "Get e (Bearer (JString s)) = ''Bearer '' @ s"
| "Get e (Bearer v) = ''Bearer '' @ render e v"

subsection \<open>The HTTP transport underneath\<close>

record world =
  pending :: "(response \<times> string) list"
  calls :: "http_request list"

text \<open>
  One call of \<open>self._transport.request\<close>: the request is logged and the next response
  of the script is returned with its content; a script that has run out is a transport
  that raises.
\<close>

definition transport_request :: "world \<Rightarrow> http_request \<Rightarrow> (exn + response \<times> string) \<times> world" where
  "transport_request w rq =
     (case pending w of
        [] \<Rightarrow> (Inl TransportError, w\<lparr>calls := calls w @ [rq]\<rparr>)
      | r # rs \<Rightarrow> (Inr r, w\<lparr>pending := rs, calls := calls w @ [rq]\<rparr>))"

subsection \<open>Constants and \<open>_CheckState\<close>\<close>

definition PULL :: string where "PULL = ''pull''"
definition PUSH :: string where "PUSH = ''push,pull''"
definition DELETE :: string where "DELETE = PUSH"
definition CATALOG :: string where "CATALOG = ''catalog''"
definition ACTIONS :: "string list" where "ACTIONS = [PULL, PUSH, DELETE, CATALOG]"

definition UNAUTHORIZED :: int where "UNAUTHORIZED = 401"
definition OK :: int where "OK = 200"

definition CHALLENGE :: string where "CHALLENGE = ''Bearer ''"
definition REALM_PFX :: string where "REALM_PFX = ''realm=''"
definition SERVICE_PFX :: string where "SERVICE_PFX = ''service=''"

definition CheckState :: "bool \<Rightarrow> string option \<Rightarrow> exn + unit" where
  "CheckState predicate msg =
     (if \<not> predicate then Inl (BadStateException (if truthy msg then the msg else ''Unknown''))
      else Inr ())"

definition Scheme :: "string \<Rightarrow> string" where
  "Scheme endpoint = (if startswith endpoint ''localhost:'' then ''http'' else ''https'')"

subsection \<open>The \<open>Transport\<close> object\<close>

record transport =
  registry :: string
  basic_creds :: string
  action :: string
  realm :: "string option"
  service :: "string option"
  bearer_creds :: "creds option"

text \<open>The body of the \<open>for t in tokens\<close> loop of \<open>_Ping\<close>.\<close>

definition Ping_token :: "string \<Rightarrow> transport \<Rightarrow> transport" where
  "Ping_token t self =
     (if startswith t REALM_PFX then
        self\<lparr>realm := Some (strip ''\"'' (drop (length REALM_PFX) t))\<rparr>
      else if startswith t SERVICE_PFX then
        self\<lparr>service := Some (strip ''\"'' (drop (length SERVICE_PFX) t))\<rparr>
      else self)"

definition Ping :: "env \<Rightarrow> transport \<Rightarrow> world \<Rightarrow> (exn + unit) \<times> transport \<times> world" where
  "Ping e self w =
     (let headers = [(''content-type'', ''application/json''), (''user-agent'', USER_AGENT e)];
          rq = \<lparr>req_url = Scheme (registry self) @ ''://'' @ registry self @ ''/v2/'',
                req_method = ''GET'', req_body = None, req_headers = headers\<rparr>
      in case transport_request w rq of
           (Inl x, w1) \<Rightarrow> (Inl x, self, w1)
         | (Inr (resp, unused_content), w1) \<Rightarrow>
             (case CheckState (status resp = UNAUTHORIZED)
                     (Some (''Unexpected status: '' @ show_int (status resp))) of
                Inl x \<Rightarrow> (Inl x, self, w1)
              | Inr _ \<Rightarrow>
                 (case map_of (resp_headers resp) ''www-authenticate'' of
                    None \<Rightarrow> (Inl (KeyError ''www-authenticate''), self, w1)
                  | Some challenge \<Rightarrow>
                     (case CheckState (startswith challenge CHALLENGE)
                             (Some (''Unexpected \"www-authenticate\" header: '' @ challenge)) of
                        Inl x \<Rightarrow> (Inl x, self, w1)
                      | Inr _ \<Rightarrow>
                         (let self1 = self\<lparr>service := Some (registry self)\<rparr>;
                              tokens = split_on CHR '','' (drop (length CHALLENGE) challenge);
                              self2 = fold Ping_token tokens self1
                          in case realm self2 of
                               None \<Rightarrow> (Inl AttributeError, self2, w1)
                             | Some r \<Rightarrow>
                                (case CheckState (r \<noteq> [])
                                        (Some (''Expected a \"'' @ REALM_PFX
                                               @ ''\" in \"www-authenticate\" header: ''
                                               @ challenge)) of
                                   Inl x \<Rightarrow> (Inl x, self2, w1)
                                 | Inr _ \<Rightarrow> (Inr (), self2, w1)))))))"

text \<open>\<open>_Scope\<close>\<close>

definition Scope :: "env \<Rightarrow> transport \<Rightarrow> string" where
  "Scope e self = name_scope e (action self)"

text \<open>
  \<open>'token' in wrapper_object\<close> and \<open>wrapper_object['token']\<close> on a decoded JSON value:
  a dictionary is asked for the key, a list for the element, a string for the piece of
  text; the other values are not containers. Only a dictionary can be indexed by a string.
\<close>

fun py_in :: "string \<Rightarrow> json \<Rightarrow> exn + bool" where
  "py_in k (JObject kvs) = Inr (k \<in> set (map fst kvs))"
| "py_in k (JArray xs) = Inr (JString k \<in> set xs)"
| "py_in k (JString s) = Inr (str_contains s k)"
| "py_in k _ = Inl TypeError"

fun py_index :: "json \<Rightarrow> string \<Rightarrow> exn + json" where
  "py_index (JObject kvs) k = (case map_of kvs k of None \<Rightarrow> Inl (KeyError k) | Some v \<Rightarrow> Inr v)"
| "py_index _ k = Inl TypeError"

definition Refresh :: "env \<Rightarrow> transport \<Rightarrow> world \<Rightarrow> (exn + unit) \<times> transport \<times> world" where
  "Refresh e self w =
     (let headers = [(''content-type'', ''application/json''), (''user-agent'', USER_AGENT e),
                     (''Authorization'', basic_creds self)]
      in case service self of
           None \<Rightarrow> (Inl AttributeError, self, w)
         | Some svc \<Rightarrow>
            (let parameters = [(''scope'', Scope e self), (''service'', svc)]
             in case realm self of
                  None \<Rightarrow> (Inl AttributeError, self, w)
                | Some rlm \<Rightarrow>
                   (case transport_request w
                           \<lparr>req_url = rlm @ ''?'' @ urlencode e parameters, req_method = ''GET'',
                            req_body = None, req_headers = headers\<rparr> of
                      (Inl x, w1) \<Rightarrow> (Inl x, self, w1)
                    | (Inr (resp, content), w1) \<Rightarrow>
                       (case CheckState (status resp = OK)
                               (Some (''Bad status during token exchange: '' @ show_int (status resp)
                                      @ [CHR 0x0A] @ content)) of
                          Inl x \<Rightarrow> (Inl x, self, w1)
                        | Inr _ \<Rightarrow>
                           (case loads e content of
                              None \<Rightarrow> (Inl ValueError, self, w1)
                            | Some wrapper_object \<Rightarrow>
                               (case py_in ''token'' wrapper_object of
                                  Inl x \<Rightarrow> (Inl x, self, w1)
                                | Inr found \<Rightarrow>
                                   (case CheckState found
                                           (Some (''Malformed JSON response: '' @ content)) of
                                      Inl x \<Rightarrow> (Inl x, self, w1)
                                    | Inr _ \<Rightarrow>
                                       (case py_index wrapper_object ''token'' of
                                          Inl x \<Rightarrow> (Inl x, self, w1)
                                        | Inr tok \<Rightarrow>
                                           (Inr (), self\<lparr>bearer_creds := Some (Bearer tok)\<rparr>,
                                            w1)))))))))"

text \<open>\<open>Transport.__init__\<close>: the attributes, the check of the action, then ping and refresh.\<close>

definition Transport_init ::
  "env \<Rightarrow> string \<Rightarrow> string \<Rightarrow> string \<Rightarrow> world \<Rightarrow> (exn + transport) \<times> world" where
  "Transport_init e name_registry creds act w =
     (let self = \<lparr>registry = name_registry, basic_creds = creds, action = act,
                  realm = None, service = None, bearer_creds = None\<rparr>
      in case CheckState (act \<in> set ACTIONS)
                (Some (''Invalid action supplied to docker_http.Transport: '' @ act)) of
           Inl x \<Rightarrow> (Inl x, w)
         | Inr _ \<Rightarrow>
            (case Ping e self w of
               (Inl x, self1, w1) \<Rightarrow> (Inl x, w1)
             | (Inr _, self1, w1) \<Rightarrow>
                (case Refresh e self1 w1 of
                   (Inl x, self2, w2) \<Rightarrow> (Inl x, w2)
                 | (Inr _, self2, w2) \<Rightarrow> (Inr self2, w2))))"

subsection \<open>The diagnostic decoder\<close>

text \<open>\<open>o.get(k, default)\<close> and iteration (\<open>for d in v\<close>) on a decoded JSON value.\<close>

fun py_get :: "json \<Rightarrow> string \<Rightarrow> json \<Rightarrow> exn + json" where
  "py_get (JObject kvs) k dflt = Inr (case map_of kvs k of None \<Rightarrow> dflt | Some v \<Rightarrow> v)"
| "py_get _ k dflt = Inl AttributeError"

fun py_iter :: "json \<Rightarrow> exn + json list" where
  "py_iter (JArray xs) = Inr xs"
| "py_iter (JString s) = Inr (map (\<lambda>c. JString [c]) s)"
| "py_iter (JObject kvs) = Inr (map (\<lambda>kv. JString (fst kv)) kvs)"
| "py_iter _ = Inl TypeError"

text \<open>The body of the \<open>try\<close> of \<open>_DiagnosticsFromContent\<close>.\<close>

definition Diagnostics_try :: "env \<Rightarrow> string \<Rightarrow> exn + Diagnostic list" where
  "Diagnostics_try e content =
     (case loads e content of
        None \<Rightarrow> Inl ValueError
      | Some obj \<Rightarrow>
         (case py_get obj ''errors'' (JArray []) of
            Inl x \<Rightarrow> Inl x
          | Inr errs \<Rightarrow>
             (case py_iter errs of
                Inl x \<Rightarrow> Inl x
              | Inr ds \<Rightarrow> Inr (map Diagnostic ds))))"

text \<open>The bare \<open>except\<close> catches whatever the \<open>try\<close> raised.\<close>

definition DiagnosticsFromContent :: "env \<Rightarrow> string \<Rightarrow> exn + Diagnostic list" where
  "DiagnosticsFromContent e content =
     (case Diagnostics_try e content of
        Inr ds \<Rightarrow> Inr ds
      | Inl _ \<Rightarrow>
         Inr [Diagnostic (JObject [(''code'', JString ''UNKNOWN''),
                                   (''message'', JString content)])])"

subsection \<open>\<open>V2DiagnosticException\<close>\<close>

text \<open>\<open>'%s' % v\<close> for what an accessor of a diagnostic returned.\<close>

fun percent_s :: "env \<Rightarrow> json option \<Rightarrow> string" where
  "percent_s e None = ''None''"
| "percent_s e (Some JNull) = ''None''"
| "percent_s e (Some (JString s)) = s"
| "percent_s e (Some v) = render e v"

text \<open>\<open>'%s: %s' % (d.message, d.detail)\<close>\<close>

definition diag_line :: "env \<Rightarrow> Diagnostic \<Rightarrow> exn + string" where
  "diag_line e d =
     (case message d of
        Inl x \<Rightarrow> Inl x
      | Inr m \<Rightarrow>
         (case detail d of
            Inl x \<Rightarrow> Inl x
          | Inr dt \<Rightarrow> Inr (percent_s e m @ '': '' @ percent_s e dt)))"

text \<open>The list comprehension over the diagnostics: the first accessor that raises ends it.\<close>

fun diag_lines :: "env \<Rightarrow> Diagnostic list \<Rightarrow> exn + string list" where
  "diag_lines e [] = Inr []"
| "diag_lines e (d # ds) =
     (case diag_line e d of
        Inl x \<Rightarrow> Inl x
      | Inr l \<Rightarrow> (case diag_lines e ds of Inl x \<Rightarrow> Inl x | Inr ls \<Rightarrow> Inr (l # ls)))"

text \<open>
  What \<open>raise V2DiagnosticException(resp, content)\<close> raises: the exception itself when
  its constructor returns, and what the constructor raised otherwise. The message of the
  exception starts with Python's rendering of the response object, which is not modelled;
  the exception carries the response and the diagnostics.
\<close>

definition raise_V2DiagnosticException :: "env \<Rightarrow> response \<Rightarrow> string \<Rightarrow> exn" where
  "raise_V2DiagnosticException e resp content =
     (case DiagnosticsFromContent e content of
        Inl x \<Rightarrow> x
      | Inr ds \<Rightarrow>
         (case diag_lines e ds of
            Inl x \<Rightarrow> x
          | Inr ls \<Rightarrow> V2DiagnosticException resp ds))"

subsection \<open>\<open>Transport.Request\<close>\<close>

text \<open>The headers of one attempt, built from the credential that is current then.\<close>

definition Request_headers ::
  "env \<Rightarrow> creds \<Rightarrow> string \<Rightarrow> string option \<Rightarrow> string option \<Rightarrow> string list option
   \<Rightarrow> (string \<times> string) list" where
  "Request_headers e b method body content_type accepted_mimes =
     (let headers = [(''Authorization'', Get e b), (''user-agent'', USER_AGENT e)];
          headers = (if truthy body
                     then AList.update ''content-type''
                            (if truthy content_type then the content_type
                             else ''application/json'') headers
                     else headers);
          headers = (case accepted_mimes of
                       None \<Rightarrow> headers
                     | Some ms \<Rightarrow> AList.update ''Accept'' (join '','' ms) headers);
          headers = (if method \<in> set [''POST'', ''PUT''] \<and> \<not> truthy body
                     then AList.update ''content-length'' ''0'' headers
                     else headers)
      in headers)"

text \<open>One pass through the body of the loop up to the call of the HTTP transport.\<close>

definition Request_attempt ::
  "env \<Rightarrow> transport \<Rightarrow> world \<Rightarrow> string \<Rightarrow> string \<Rightarrow> string option \<Rightarrow> string option
   \<Rightarrow> string list option \<Rightarrow> (exn + response \<times> string) \<times> world" where
  "Request_attempt e self w url method body content_type accepted_mimes =
     (case bearer_creds self of
        None \<Rightarrow> (Inl AttributeError, w)
      | Some b \<Rightarrow>
         transport_request w
           \<lparr>req_url = url, req_method = method, req_body = body,
            req_headers = Request_headers e b method body content_type accepted_mimes\<rparr>)"

text \<open>
  \<open>for retry in [True, False]\<close>: the list of the values of \<open>retry\<close> still to come, and
  the response and content of the last pass (the variables \<open>resp\<close> and \<open>content\<close>, not
  bound before the first pass).
\<close>

fun Request_loop ::
  "env \<Rightarrow> string \<Rightarrow> string \<Rightarrow> string option \<Rightarrow> string option \<Rightarrow> string list option
   \<Rightarrow> bool list \<Rightarrow> (response \<times> string) option \<Rightarrow> transport \<Rightarrow> world
   \<Rightarrow> (exn + (response \<times> string) option) \<times> transport \<times> world" where
  "Request_loop e url method body content_type accepted_mimes [] seen self w =
     (Inr seen, self, w)"
| "Request_loop e url method body content_type accepted_mimes (retry # rest) seen self w =
     (case Request_attempt e self w url method body content_type accepted_mimes of
        (Inl x, w1) \<Rightarrow> (Inl x, self, w1)
      | (Inr (resp, content), w1) \<Rightarrow>
         (if status resp \<noteq> UNAUTHORIZED then (Inr (Some (resp, content)), self, w1)
          else if retry then
            (case Refresh e self w1 of
               (Inl x, self2, w2) \<Rightarrow> (Inl x, self2, w2)
             | (Inr _, self2, w2) \<Rightarrow>
                Request_loop e url method body content_type accepted_mimes rest
                  (Some (resp, content)) self2 w2)
          else
            Request_loop e url method body content_type accepted_mimes rest
              (Some (resp, content)) self w1))"

text \<open>\<open>if not method: method = 'GET' if not body else 'PUT'\<close>\<close>

definition Request_method :: "string option \<Rightarrow> string option \<Rightarrow> string" where
  "Request_method method body =
     (if \<not> truthy method then (if \<not> truthy body then ''GET'' else ''PUT'')
      else the method)"

text \<open>
  The statements after the loop, on the response the loop ended with: the membership test
  \<open>resp.status not in accepted_codes\<close> (a \<open>TypeError\<close> on \<open>None\<close>), then the
  \<open>raise\<close> or the \<open>return\<close>.
\<close>

definition final_check ::
  "env \<Rightarrow> int list option \<Rightarrow> response \<Rightarrow> string \<Rightarrow> exn + response \<times> string" where
  "final_check e accepted_codes resp content =
     (case accepted_codes of
        None \<Rightarrow> Inl TypeError
      | Some codes \<Rightarrow>
         (if status resp \<notin> set codes then Inl (raise_V2DiagnosticException e resp content)
          else Inr (resp, content)))"

definition Request ::
  "env \<Rightarrow> transport \<Rightarrow> world \<Rightarrow> string \<Rightarrow> int list option \<Rightarrow> string option \<Rightarrow> string option
   \<Rightarrow> string option \<Rightarrow> string list option
   \<Rightarrow> (exn + response \<times> string) \<times> transport \<times> world" where
  "Request e self w url accepted_codes method body content_type accepted_mimes =
     (let method1 = Request_method method body
      in case Request_loop e url method1 body content_type accepted_mimes [True, False]
                None self w of
           (Inl x, self1, w1) \<Rightarrow> (Inl x, self1, w1)
         | (Inr None, self1, w1) \<Rightarrow> (Inl UnboundLocalError, self1, w1)
         | (Inr (Some (resp, content)), self1, w1) \<Rightarrow>
            (final_check e accepted_codes resp content, self1, w1))"

subsection \<open>\<open>ParseNextLinkHeader\<close>\<close>

text \<open>
  \<open>re.match(r'.*<(.+)>;\s*rel="next".*', link)\<close>. The match starts at the beginning of
  the text; \<open>.\<close> is any character but the newline, \<open>\s\<close> one of the six ASCII
  white-space characters. A greedy repetition tries its longest extent first, so the
  first \<open>.*\<close> ends at the last \<open><\<close> from which the rest of the pattern matches, and
  the group at the last \<open>>\<close> from which it does.
\<close>

definition dot :: "char \<Rightarrow> bool" where
  "dot c = (c \<noteq> CHR 0x0A)"

definition is_space :: "char \<Rightarrow> bool" where
  "is_space c = (c \<in> set [CHR '' '', CHR 0x09, CHR 0x0A, CHR 0x0D, CHR 0x0C, CHR 0x0B])"

text \<open>\<open>\s*rel="next".*\<close> at the start of \<open>s\<close>: the white space, then the literal.\<close>

definition rel_next :: "string \<Rightarrow> bool" where
  "rel_next s = startswith (dropWhile is_space s) ''rel=\"next\"''"

text \<open>\<open>(.+)>;\s*rel="next".*\<close> at the start of \<open>r\<close>: the longest group first.\<close>

definition match_group :: "string \<Rightarrow> string option" where
  "match_group r =
     map_option (\<lambda>j. take j r)
       (List.find (\<lambda>j. list_all dot (take j r) \<and> startswith (drop j r) ''>;''
                        \<and> rel_next (drop (j + 2) r))
          (rev [1 ..< Suc (length r)]))"

text \<open>The whole pattern: the longest prefix for the first \<open>.*\<close> first; the value is group 1.\<close>

definition re_match_next :: "string \<Rightarrow> string option" where
  "re_match_next link =
     (case List.find (\<lambda>i. list_all dot (take i link) \<and> startswith (drop i link) ''<''
                          \<and> match_group (drop (Suc i) link) \<noteq> None)
             (rev [0 ..< Suc (length link)]) of
        None \<Rightarrow> None
      | Some i \<Rightarrow> match_group (drop (Suc i) link))"

definition ParseNextLinkHeader :: "response \<Rightarrow> string option" where
  "ParseNextLinkHeader resp =
     (let link = map_of (resp_headers resp) ''link''
      in if \<not> truthy link then None
         else (case re_match_next (the link) of None \<Rightarrow> None | Some g \<Rightarrow> Some g))"

subsection \<open>What a call does to the script of the HTTP transport\<close>

lemma transport_request_pending:
  "transport_request w rq = (Inr r, w1) \<Longrightarrow> length (pending w1) < length (pending w)"
  by (auto simp: transport_request_def split: list.splits)

lemma transport_request_pending_le:
  "transport_request w rq = (res, w1) \<Longrightarrow> length (pending w1) \<le> length (pending w)"
  by (auto simp: transport_request_def split: list.splits)

lemma Refresh_pending_le:
  "Refresh e self w = (res, self1, w1) \<Longrightarrow> length (pending w1) \<le> length (pending w)"
  by (auto simp: Refresh_def Let_def split: option.splits sum.splits prod.splits
           dest: transport_request_pending_le)

lemma Request_attempt_pending:
  "Request_attempt e self w url m b ct am = (Inr r, w1)
   \<Longrightarrow> length (pending w1) < length (pending w)"
  by (auto simp: Request_attempt_def split: option.splits dest: transport_request_pending)

lemma Request_loop_pending_le:
  "Request_loop e url m b ct am rs seen self w = (res, self1, w1)
   \<Longrightarrow> length (pending w1) \<le> length (pending w)"
proof (induction rs arbitrary: seen self w)
  case Nil
  then show ?case by simp
next
  case (Cons retry rest)
  obtain ra wa where att: "Request_attempt e self w url m b ct am = (ra, wa)"
    by (cases "Request_attempt e self w url m b ct am")
  show ?case
  proof (cases ra)
    case (Inl x)
    with Cons.prems att have "w1 = wa" by simp
    moreover have "length (pending wa) \<le> length (pending w)"
      using att by (auto simp: Request_attempt_def split: option.splits
                         dest: transport_request_pending_le)
    ultimately show ?thesis by simp
  next
    case (Inr rc)
    obtain resp content where rc: "rc = (resp, content)" by (cases rc)
    have lt: "length (pending wa) < length (pending w)"
      using att Inr by (auto dest: Request_attempt_pending)
    show ?thesis
    proof (cases "status resp \<noteq> UNAUTHORIZED")
      case True
      with Cons.prems att Inr rc lt show ?thesis by simp
    next
      case F: False
      show ?thesis
      proof (cases retry)
        case True
        obtain rr s2 w2 where rf: "Refresh e self wa = (rr, s2, w2)"
          by (cases "Refresh e self wa")
        have le2: "length (pending w2) \<le> length (pending wa)"
          using rf by (rule Refresh_pending_le)
        show ?thesis
        proof (cases rr)
          case (Inl x)
          with Cons.prems att Inr rc F True rf have "w1 = w2" by simp
          with le2 lt show ?thesis by simp
        next
          case (Inr u)
          with Cons.prems att \<open>ra = Inr rc\<close> rc F True rf
          have "Request_loop e url m b ct am rest (Some (resp, content)) s2 w2 = (res, self1, w1)"
            by simp
          from Cons.IH [OF this] le2 lt show ?thesis by simp
        qed
      next
        case False
        with Cons.prems att Inr rc F
        have "Request_loop e url m b ct am rest (Some (resp, content)) self wa = (res, self1, w1)"
          by simp
        from Cons.IH [OF this] lt show ?thesis by simp
      qed
    qed
  qed
qed

lemma Request_pending:
  assumes "Request e self w url codes m b ct am = (Inr x, self1, w1)"
  shows "length (pending w1) < length (pending w)"
proof -
  define m1 where "m1 = Request_method m b"
  obtain res s2 w2 where L: "Request_loop e url m1 b ct am [True, False] None self w = (res, s2, w2)"
    by (cases "Request_loop e url m1 b ct am [True, False] None self w")
  from assms L have w: "w1 = w2" and ok: "\<exists>v. res = Inr (Some v)"
    by (auto simp: Request_def Let_def m1_def final_check_def
             split: sum.splits option.splits if_splits prod.splits)
  obtain ra wa where att: "Request_attempt e self w url m1 b ct am = (ra, wa)"
    by (cases "Request_attempt e self w url m1 b ct am")
  show ?thesis
  proof (cases ra)
    case (Inl y)
    with L att ok show ?thesis by auto
  next
    case (Inr rc)
    have lt: "length (pending wa) < length (pending w)"
      using att Inr by (auto dest: Request_attempt_pending)
    obtain resp content where rc: "rc = (resp, content)" by (cases rc)
    show ?thesis
    proof (cases "status resp \<noteq> UNAUTHORIZED")
      case True
      with L att Inr rc lt w show ?thesis by simp
    next
      case False
      obtain rr s3 w3 where rf: "Refresh e self wa = (rr, s3, w3)"
        by (cases "Refresh e self wa")
      have le3: "length (pending w3) \<le> length (pending wa)"
        using rf by (rule Refresh_pending_le)
      show ?thesis
      proof (cases rr)
        case (Inl y)
        with L att Inr rc False rf ok show ?thesis by auto
      next
        case R: (Inr u)
        with L att Inr rc False rf
        have "Request_loop e url m1 b ct am [False] (Some (resp, content)) s3 w3 = (res, s2, w2)"
          by simp
        from Request_loop_pending_le [OF this] le3 lt w show ?thesis by simp
      qed
    qed
  qed
qed

subsection \<open>\<open>Transport.PaginatedRequest\<close>\<close>

text \<open>
  The generator, run to its end: the pages it yielded in order, the exception that ended
  it if one did, and the object and the HTTP transport afterwards. Every successful
  \<open>Request\<close> takes at least one response from the script, so the loop ends.
\<close>

function PaginatedRequest ::
  "env \<Rightarrow> transport \<Rightarrow> world \<Rightarrow> string option \<Rightarrow> int list option \<Rightarrow> string option
   \<Rightarrow> string option \<Rightarrow> string option
   \<Rightarrow> (response \<times> string) list \<times> exn option \<times> transport \<times> world" where
  "PaginatedRequest e self w next_page accepted_codes method body content_type =
     (if \<not> truthy next_page then ([], None, self, w)
      else (case Request e self w (the next_page) accepted_codes method body content_type None of
              (Inl x, self1, w1) \<Rightarrow> ([], Some x, self1, w1)
            | (Inr page, self1, w1) \<Rightarrow>
               (case PaginatedRequest e self1 w1 (ParseNextLinkHeader (fst page))
                       accepted_codes method body content_type of
                  (pages, r) \<Rightarrow> (page # pages, r))))"
  by pat_completeness auto
termination
  apply (relation "measure (\<lambda>(e, self, w, rest). length (pending w))")
   apply simp
  apply (auto dest: Request_pending [OF sym])
  done

declare PaginatedRequest.simps [simp del]

subsection \<open>Concrete instances\<close>

text \<open>
  A concrete environment, transport object and responses, at which the theorems below are
  instantiated. \<open>demo_loads\<close> is \<open>json.loads\<close> on the bodies it lists and rejects every
  other text.
\<close>

definition demo_loads :: "string \<Rightarrow> json option" where
  "demo_loads s =
     (if s = ''{\"token\":\"abc123\"}'' then Some (JObject [(''token'', JString ''abc123'')])
      else if s = ''{}'' then Some (JObject [])
      else if s = ''{\"errors\":[{\"code\":\"X\",\"message\":\"m\",\"detail\":\"d\"}]}''
        then Some (JObject [(''errors'', JArray [JObject [(''code'', JString ''X''),
               (''message'', JString ''m''), (''detail'', JString ''d'')]])])
      else if s = ''\"not json\"'' then Some (JString ''not json'')
      else if s = ''null'' then Some JNull
      else if s = ''[\"token\"]'' then Some (JArray [JString ''token''])
      else if s = ''{\"errors\":[\"x\"]}'' then Some (JObject [(''errors'', JArray [JString ''x''])])
      else None)"

definition demo_env :: env where
  "demo_env = \<lparr>loads = demo_loads,
                urlencode = (\<lambda>ps. join ''&'' (map (\<lambda>kv. fst kv @ ''='' @ snd kv) ps)),
                USER_AGENT = ''docker-client'',
                name_scope = (\<lambda>a. ''repository:foo/bar:'' @ a),
                render = (\<lambda>v. ''?'')\<rparr>"

text \<open>The object as \<open>__init__\<close> has it when it calls \<open>_Ping\<close>.\<close>

definition fresh_transport :: transport where
  "fresh_transport =
     \<lparr>registry = ''gcr.io'', basic_creds = ''Basic dXNlcjpwYXNz'', action = ''pull'',
      realm = None, service = None, bearer_creds = None\<rparr>"

text \<open>The object as a successful construction leaves it.\<close>

definition demo_transport :: transport where
  "demo_transport =
     \<lparr>registry = ''gcr.io'', basic_creds = ''Basic dXNlcjpwYXNz'', action = ''pull'',
      realm = Some ''https://gcr.io/v2/token'', service = Some ''gcr.io'',
      bearer_creds = Some (Bearer (JString ''old''))\<rparr>"

definition resp401 :: response where
  "resp401 = \<lparr>status = 401, resp_headers = []\<rparr>"

definition resp200 :: response where
  "resp200 = \<lparr>status = 200, resp_headers = []\<rparr>"

text \<open>A 401 that carries a challenge, and two pages of a listing.\<close>

definition challenge_response :: "string \<Rightarrow> response" where
  "challenge_response challenge =
     \<lparr>status = 401, resp_headers = [(''www-authenticate'', challenge)]\<rparr>"

definition page_next :: response where
  "page_next = \<lparr>status = 200, resp_headers = [(''link'', ''<https://x/y?page=2>; rel=\"next\"'')]\<rparr>"

definition page_prev :: response where
  "page_prev = \<lparr>status = 200, resp_headers = [(''link'', ''<https://x/y?page=1>; rel=\"prev\"'')]\<rparr>"

subsection \<open>The requests the module sends\<close>

text \<open>The request of \<open>_Ping\<close>, of \<open>_Refresh\<close>, and of one attempt of \<open>Request\<close>.\<close>

definition ping_request :: "env \<Rightarrow> transport \<Rightarrow> http_request" where
  "ping_request e self =
     \<lparr>req_url = Scheme (registry self) @ ''://'' @ registry self @ ''/v2/'',
      req_method = ''GET'', req_body = None,
      req_headers = [(''content-type'', ''application/json''), (''user-agent'', USER_AGENT e)]\<rparr>"

definition exchange_request :: "env \<Rightarrow> transport \<Rightarrow> http_request" where
  "exchange_request e self =
     \<lparr>req_url = the (realm self) @ ''?''
                 @ urlencode e [(''scope'', Scope e self), (''service'', the (service self))],
      req_method = ''GET'', req_body = None,
      req_headers = [(''content-type'', ''application/json''), (''user-agent'', USER_AGENT e),
                     (''Authorization'', basic_creds self)]\<rparr>"

definition attempt_request ::
  "env \<Rightarrow> creds \<Rightarrow> string \<Rightarrow> string \<Rightarrow> string option \<Rightarrow> string option \<Rightarrow> string list option
   \<Rightarrow> http_request" where
  "attempt_request e b url method body content_type accepted_mimes =
     \<lparr>req_url = url, req_method = method, req_body = body,
      req_headers = Request_headers e b method body content_type accepted_mimes\<rparr>"

subsection \<open>Basic facts\<close>

lemma truthy_Some_append [simp]: "truthy (Some (c # cs @ x))"
  by simp

lemma CheckState_True [simp]: "CheckState True m = Inr ()"
  by (simp add: CheckState_def)

lemma CheckState_False [simp]:
  "truthy (Some m) \<Longrightarrow> CheckState False (Some m) = Inl (BadStateException m)"
  by (simp add: CheckState_def)

lemma fold_Ping_token_action [simp]: "action (fold Ping_token ts self) = action self"
  by (induction ts arbitrary: self) (simp_all add: Ping_token_def)

lemma fold_Ping_token_registry [simp]: "registry (fold Ping_token ts self) = registry self"
  by (induction ts arbitrary: self) (simp_all add: Ping_token_def)

lemma Ping_action: "Ping e self w = (res, self1, w1) \<Longrightarrow> action self1 = action self"
  by (auto simp: Ping_def Let_def CheckState_def
           split: prod.splits sum.splits option.splits if_splits)

lemma Refresh_action: "Refresh e self w = (res, self1, w1) \<Longrightarrow> action self1 = action self"
  by (auto simp: Refresh_def Let_def CheckState_def
           split: prod.splits sum.splits option.splits if_splits)

lemma Ping_bad_status:
  assumes "pending w = (resp, content) # rest" and "status resp \<noteq> 401"
  shows "Ping e self w =
           (Inl (BadStateException (''Unexpected status: '' @ show_int (status resp))), self,
            w\<lparr>pending := rest, calls := calls w @ [ping_request e self]\<rparr>)"
  using assms
  by (simp add: Ping_def Let_def transport_request_def UNAUTHORIZED_def ping_request_def)

section \<open>The action is checked before anything is sent (C9)\<close>

text \<open>
  C9. An action that is not one of \<open>ACTIONS\<close> makes \<open>Transport.__init__\<close> raise
  \<open>BadStateException\<close> with the HTTP transport untouched: no response has been taken and
  no request has been logged. Hence whenever the construction returns an object, its
  action is the one supplied and is one of \<open>ACTIONS\<close>.
\<close>

theorem invalid_action_rejected:
  "(act \<notin> set ACTIONS \<longrightarrow>
      Transport_init e name_registry creds act w =
        (Inl (BadStateException (''Invalid action supplied to docker_http.Transport: '' @ act)), w))
   \<and> (\<forall>self w'. Transport_init e name_registry creds act w = (Inr self, w')
         \<longrightarrow> action self = act \<and> act \<in> set ACTIONS)"
proof (rule conjI, rule impI, goal_cases)
  case 1
  then show "Transport_init e name_registry creds act w =
        (Inl (BadStateException (''Invalid action supplied to docker_http.Transport: '' @ act)), w)"
    by (simp add: Transport_init_def)
next
  case 2
  show ?case
  proof (intro allI impI)
  fix self w'
  assume ok: "Transport_init e name_registry creds act w = (Inr self, w')"
  show "action self = act \<and> act \<in> set ACTIONS"
  proof (cases "act \<in> set ACTIONS")
    case False
    with ok show ?thesis by (simp add: Transport_init_def)
  next
    case True
    define self0 where "self0 = \<lparr>registry = name_registry, basic_creds = creds, action = act,
                  realm = None, service = None, bearer_creds = None\<rparr>"
    obtain r1 s1 w1 where P: "Ping e self0 w = (r1, s1, w1)" by (cases "Ping e self0 w")
    obtain r2 s2 w2 where R: "Refresh e s1 w1 = (r2, s2, w2)" by (cases "Refresh e s1 w1")
    from ok True P R have "self = s2"
      by (auto simp: Transport_init_def self0_def split: sum.splits)
    moreover have "action s2 = action s1" using R by (rule Refresh_action)
    moreover have "action s1 = action self0" using P by (rule Ping_action)
    ultimately show ?thesis using True by (simp add: self0_def)
  qed
  qed
qed

theorem invalid_action_rejected_witness:
  "''push'' \<notin> set ACTIONS \<and>
   Transport_init demo_env ''gcr.io'' ''Basic dXNlcjpwYXNz'' ''push'' \<lparr>pending = [], calls = []\<rparr> =
     (Inl (BadStateException ''Invalid action supplied to docker_http.Transport: push''),
      \<lparr>pending = [], calls = []\<rparr>)
   \<and> Transport_init demo_env ''gcr.io'' ''Basic dXNlcjpwYXNz'' ''pull''
       \<lparr>pending = [(challenge_response
                      ''Bearer realm=\"https://gcr.io/v2/token\",service=\"gcr.io\"'', []),
                   (resp200, ''{\"token\":\"abc123\"}'')],
        calls = []\<rparr> =
     (Inr (demo_transport\<lparr>bearer_creds := Some (Bearer (JString ''abc123''))\<rparr>),
      \<lparr>pending = [],
       calls = [ping_request demo_env fresh_transport, exchange_request demo_env demo_transport]\<rparr>)
   \<and> action (demo_transport\<lparr>bearer_creds := Some (Bearer (JString ''abc123''))\<rparr>) = ''pull''
   \<and> ''pull'' \<in> set ACTIONS"
proof -
  have a: "''push'' \<notin> set ACTIONS"
    by (simp add: ACTIONS_def PULL_def PUSH_def DELETE_def CATALOG_def)
  have ok: "Transport_init demo_env ''gcr.io'' ''Basic dXNlcjpwYXNz'' ''pull''
       \<lparr>pending = [(challenge_response
                      ''Bearer realm=\"https://gcr.io/v2/token\",service=\"gcr.io\"'', []),
                   (resp200, ''{\"token\":\"abc123\"}'')],
        calls = []\<rparr> =
     (Inr (demo_transport\<lparr>bearer_creds := Some (Bearer (JString ''abc123''))\<rparr>),
      \<lparr>pending = [],
       calls = [ping_request demo_env fresh_transport, exchange_request demo_env demo_transport]\<rparr>)"
    by (simp add: Transport_init_def Ping_def Refresh_def Let_def transport_request_def
          UNAUTHORIZED_def OK_def ping_request_def exchange_request_def
          CHALLENGE_def startswith_def fresh_transport_def demo_transport_def Ping_token_def
          REALM_PFX_def SERVICE_PFX_def strip_def demo_env_def demo_loads_def Scheme_def
          Scope_def ACTIONS_def PULL_def challenge_response_def resp200_def)
  from invalid_action_rejected [of "''push''" demo_env "''gcr.io''" "''Basic dXNlcjpwYXNz''"
         "\<lparr>pending = [], calls = []\<rparr>"] a
  have bad: "Transport_init demo_env ''gcr.io'' ''Basic dXNlcjpwYXNz'' ''push''
               \<lparr>pending = [], calls = []\<rparr> =
     (Inl (BadStateException ''Invalid action supplied to docker_http.Transport: push''),
      \<lparr>pending = [], calls = []\<rparr>)"
    by simp
  from invalid_action_rejected [of "''pull''" demo_env "''gcr.io''" "''Basic dXNlcjpwYXNz''"
         "\<lparr>pending = [(challenge_response
                      ''Bearer realm=\"https://gcr.io/v2/token\",service=\"gcr.io\"'', []),
                   (resp200, ''{\"token\":\"abc123\"}'')],
        calls = []\<rparr>"] ok
  have "action (demo_transport\<lparr>bearer_creds := Some (Bearer (JString ''abc123''))\<rparr>) = ''pull''
        \<and> ''pull'' \<in> set ACTIONS"
    by blast
  with a bad ok show ?thesis by blast
qed

section \<open>A ping that is not answered with 401 (C6)\<close>

text \<open>
  C6. When the response to the ping has a status other than 401, \<open>_Ping\<close> raises
  \<open>BadStateException\<close> (``Unexpected status'') and leaves the object as it was, and
  the construction raises a \<open>BadStateException\<close>: it returns no object.
\<close>

theorem Ping_unexpected_status:
  assumes "pending w = (resp, content) # rest" and "status resp \<noteq> 401"
  shows "Ping e self w =
           (Inl (BadStateException (''Unexpected status: '' @ show_int (status resp))), self,
            w\<lparr>pending := rest, calls := calls w @ [ping_request e self]\<rparr>)
         \<and> (\<exists>msg w'. Transport_init e name_registry creds act w = (Inl (BadStateException msg), w'))"
proof
  show "Ping e self w =
           (Inl (BadStateException (''Unexpected status: '' @ show_int (status resp))), self,
            w\<lparr>pending := rest, calls := calls w @ [ping_request e self]\<rparr>)"
    using assms by (rule Ping_bad_status)
next
  show "\<exists>msg w'. Transport_init e name_registry creds act w = (Inl (BadStateException msg), w')"
  proof (cases "act \<in> set ACTIONS")
    case False
    then show ?thesis by (simp add: Transport_init_def)
  next
    case True
    then show ?thesis
      by (simp add: Transport_init_def Ping_bad_status [OF assms])
  qed
qed

theorem Ping_unexpected_status_witness:
  "Ping demo_env fresh_transport \<lparr>pending = [(resp200, ''ok'')], calls = []\<rparr> =
     (Inl (BadStateException ''Unexpected status: 200''), fresh_transport,
      \<lparr>pending = [], calls = [ping_request demo_env fresh_transport]\<rparr>)
   \<and> (\<exists>msg w'. Transport_init demo_env ''gcr.io'' ''Basic dXNlcjpwYXNz'' ''pull''
          \<lparr>pending = [(resp200, ''ok'')], calls = []\<rparr> =
          (Inl (BadStateException msg), w'))"
proof -
  have s: "show_int 200 = ''200''" by code_simp
  have p: "pending \<lparr>pending = [(resp200, ''ok'')], calls = []\<rparr> = (resp200, ''ok'') # []"
    by simp
  have n: "status resp200 \<noteq> 401" by (simp add: resp200_def)
  from Ping_unexpected_status [OF p n, of demo_env fresh_transport "''gcr.io''"
         "''Basic dXNlcjpwYXNz''" "''pull''"]
  show ?thesis by (simp add: s resp200_def)
qed

section \<open>A challenge without a realm (C3)\<close>

lemma fold_Ping_token_no_realm:
  "\<forall>t \<in> set ts. \<not> startswith t REALM_PFX \<Longrightarrow> realm (fold Ping_token ts self) = realm self"
  by (induction ts arbitrary: self) (simp_all add: Ping_token_def)

lemma Ping_no_realm_token:
  assumes "pending w = (resp, content) # rest" and "status resp = 401"
    and "map_of (resp_headers resp) ''www-authenticate'' = Some challenge"
    and "startswith challenge CHALLENGE"
    and "\<forall>t \<in> set (split_on CHR '','' (drop (length CHALLENGE) challenge)).
           \<not> startswith t REALM_PFX"
    and "realm self = None"
  shows "fst (Ping e self w) = Inl AttributeError"
  using assms
  by (simp add: Ping_def Let_def transport_request_def UNAUTHORIZED_def
        fold_Ping_token_no_realm)

text \<open>
  C3. The claim: a 401 whose \<open>Bearer\<close> challenge has no \<open>realm=\<close> token makes the
  construction fail with \<open>BadStateException\<close>. In the code \<open>self._realm\<close> is assigned
  only inside the loop over the tokens, so the final \<open>_CheckState(self._realm, ...)\<close>
  reads an attribute that does not exist: what is raised is \<open>AttributeError\<close>.
  The lemma before is for every such challenge; the theorem is at one.
\<close>

theorem Ping_missing_realm_AttributeError:
  "Ping demo_env fresh_transport
     \<lparr>pending = [(\<lparr>status = 401,
                    resp_headers = [(''www-authenticate'',
                                     ''Bearer service=\"registry.example.com\"'')]\<rparr>, [])],
      calls = []\<rparr> =
   (Inl AttributeError, fresh_transport\<lparr>service := Some ''registry.example.com''\<rparr>,
    \<lparr>pending = [], calls = [ping_request demo_env fresh_transport]\<rparr>)
   \<and> fst (Transport_init demo_env ''gcr.io'' ''Basic dXNlcjpwYXNz'' ''pull''
     \<lparr>pending = [(\<lparr>status = 401,
                    resp_headers = [(''www-authenticate'',
                                     ''Bearer service=\"registry.example.com\"'')]\<rparr>, [])],
      calls = []\<rparr>) = Inl AttributeError"
  by (simp add: Transport_init_def Ping_def Let_def transport_request_def UNAUTHORIZED_def
        ping_request_def CHALLENGE_def startswith_def fresh_transport_def Ping_token_def
        REALM_PFX_def SERVICE_PFX_def strip_def demo_env_def Scheme_def
        ACTIONS_def PULL_def)

section \<open>The token exchange (C2)\<close>

lemma Refresh_ok_status:
  assumes "realm self = Some rlm" and "service self = Some svc"
    and "pending w = (resp, content) # rest" and "status resp = 200"
  shows "Refresh e self w =
     (case loads e content of
        None \<Rightarrow> (Inl ValueError, self,
                  w\<lparr>pending := rest, calls := calls w @ [exchange_request e self]\<rparr>)
      | Some wrapper_object \<Rightarrow>
         (case py_in ''token'' wrapper_object of
            Inl x \<Rightarrow> (Inl x, self,
                      w\<lparr>pending := rest, calls := calls w @ [exchange_request e self]\<rparr>)
          | Inr found \<Rightarrow>
             (if \<not> found then
                (Inl (BadStateException (''Malformed JSON response: '' @ content)), self,
                 w\<lparr>pending := rest, calls := calls w @ [exchange_request e self]\<rparr>)
              else
                (case py_index wrapper_object ''token'' of
                   Inl x \<Rightarrow> (Inl x, self,
                             w\<lparr>pending := rest, calls := calls w @ [exchange_request e self]\<rparr>)
                 | Inr tok \<Rightarrow>
                    (Inr (), self\<lparr>bearer_creds := Some (Bearer tok)\<rparr>,
                     w\<lparr>pending := rest, calls := calls w @ [exchange_request e self]\<rparr>)))))"
  using assms
  by (simp add: Refresh_def Let_def transport_request_def OK_def exchange_request_def
           split: option.splits sum.splits)

lemma Refresh_bad_status:
  assumes "realm self = Some rlm" and "service self = Some svc"
    and "pending w = (resp, content) # rest" and "status resp \<noteq> 200"
  shows "Refresh e self w =
     (Inl (BadStateException (''Bad status during token exchange: '' @ show_int (status resp)
                              @ [CHR 0x0A] @ content)), self,
      w\<lparr>pending := rest, calls := calls w @ [exchange_request e self]\<rparr>)"
  using assms
  by (simp add: Refresh_def Let_def transport_request_def OK_def exchange_request_def)




section \<open>The diagnostic decoder (C4)\<close>




section \<open>\<open>Request\<close> without accepted codes (C10)\<close>

lemma CheckState_not_V2: "CheckState p m = Inl x \<Longrightarrow> x \<noteq> V2DiagnosticException r ds"
  by (auto simp: CheckState_def split: if_splits)

lemma py_in_not_V2: "py_in k v = Inl x \<Longrightarrow> x \<noteq> V2DiagnosticException r ds"
  by (cases v) auto

lemma py_index_not_V2: "py_index v k = Inl x \<Longrightarrow> x \<noteq> V2DiagnosticException r ds"
  by (cases v) (auto split: option.splits)

lemma transport_request_not_V2:
  "transport_request w rq = (Inl x, w1) \<Longrightarrow> x \<noteq> V2DiagnosticException r ds"
  by (auto simp: transport_request_def split: list.splits)

lemma Refresh_not_V2:
  "Refresh e self w = (Inl x, self1, w1) \<Longrightarrow> x \<noteq> V2DiagnosticException r ds"
  by (auto simp: Refresh_def Let_def
           split: option.splits sum.splits prod.splits
           dest: CheckState_not_V2 py_in_not_V2 py_index_not_V2 transport_request_not_V2)

lemma Request_attempt_not_V2:
  "Request_attempt e self w url m b ct am = (Inl x, w1) \<Longrightarrow> x \<noteq> V2DiagnosticException r ds"
  by (auto simp: Request_attempt_def split: option.splits dest: transport_request_not_V2)

lemma Request_loop_not_V2:
  "Request_loop e url m b ct am rs seen self w = (Inl x, self1, w1)
   \<Longrightarrow> x \<noteq> V2DiagnosticException r ds"
proof (induction rs arbitrary: seen self w)
  case Nil
  then show ?case by simp
next
  case (Cons retry rest)
  obtain ra wa where att: "Request_attempt e self w url m b ct am = (ra, wa)"
    by (cases "Request_attempt e self w url m b ct am")
  show ?case
  proof (cases ra)
    case (Inl y)
    with Cons.prems att have "x = y" by simp
    with att Inl show ?thesis by (auto dest: Request_attempt_not_V2)
  next
    case (Inr rc)
    obtain resp content where rc: "rc = (resp, content)" by (cases rc)
    obtain rr s2 w2 where rf: "Refresh e self wa = (rr, s2, w2)"
      by (cases "Refresh e self wa")
    show ?thesis
    proof (cases "status resp \<noteq> UNAUTHORIZED")
      case True
      with Cons.prems att Inr rc show ?thesis by simp
    next
      case F: False
      show ?thesis
      proof (cases retry)
        case True
        show ?thesis
        proof (cases rr)
          case (Inl y)
          with Cons.prems att Inr rc F True rf have "x = y" by simp
          with rf Inl show ?thesis by (auto dest: Refresh_not_V2)
        next
          case R: (Inr u)
          with Cons.prems att Inr rc F True rf
          have "Request_loop e url m b ct am rest (Some (resp, content)) s2 w2 = (Inl x, self1, w1)"
            by simp
          then show ?thesis by (rule Cons.IH)
        qed
      next
        case False
        with Cons.prems att Inr rc F
        have "Request_loop e url m b ct am rest (Some (resp, content)) self wa = (Inl x, self1, w1)"
          by simp
        then show ?thesis by (rule Cons.IH)
      qed
    qed
  qed
qed

text \<open>
  C10. With \<open>accepted_codes\<close> left at its default \<open>None\<close>, \<open>Request\<close> never returns
  a response and never raises \<open>V2DiagnosticException\<close>; and whenever its loop ends
  with a response in hand, so that the final test \<open>resp.status not in accepted_codes\<close>
  is reached, what it raises is \<open>TypeError\<close>.
\<close>

theorem Request_accepted_codes_None:
  "(\<forall>v. fst (Request e self w url None method body content_type accepted_mimes) \<noteq> Inr v)
   \<and> (\<forall>r ds. fst (Request e self w url None method body content_type accepted_mimes)
                \<noteq> Inl (V2DiagnosticException r ds))
   \<and> (\<forall>resp content self1 w1.
         Request_loop e url (Request_method method body) body content_type accepted_mimes
           [True, False] None self w = (Inr (Some (resp, content)), self1, w1)
         \<longrightarrow> Request e self w url None method body content_type accepted_mimes
               = (Inl TypeError, self1, w1))"
proof -
  obtain res s1 w1 where L:
    "Request_loop e url (Request_method method body) body content_type accepted_mimes
       [True, False] None self w = (res, s1, w1)"
    by (cases "Request_loop e url (Request_method method body) body content_type accepted_mimes
                 [True, False] None self w")
  show ?thesis
  proof (cases res)
    case (Inl x)
    have "\<And>r ds. x \<noteq> V2DiagnosticException r ds"
      using L [unfolded Inl] by (rule Request_loop_not_V2)
    with L Inl show ?thesis
      by (simp add: Request_def Let_def del: Request_loop.simps)
  next
    case (Inr v)
    with L show ?thesis
      by (cases v) (auto simp: Request_def Let_def final_check_def simp del: Request_loop.simps)
  qed
qed

theorem Request_accepted_codes_None_witness:
  "Request_loop demo_env ''https://gcr.io/v2/_catalog'' (Request_method None None) None None None
      [True, False] None demo_transport \<lparr>pending = [(resp200, ''ok'')], calls = []\<rparr> =
     (Inr (Some (resp200, ''ok'')), demo_transport,
      \<lparr>pending = [],
       calls = [attempt_request demo_env (Bearer (JString ''old'')) ''https://gcr.io/v2/_catalog''
                  ''GET'' None None None]\<rparr>)
   \<and> Request demo_env demo_transport \<lparr>pending = [(resp200, ''ok'')], calls = []\<rparr>
       ''https://gcr.io/v2/_catalog'' None None None None None =
     (Inl TypeError, demo_transport,
      \<lparr>pending = [],
       calls = [attempt_request demo_env (Bearer (JString ''old'')) ''https://gcr.io/v2/_catalog''
                  ''GET'' None None None]\<rparr>)"
proof -
  have L: "Request_loop demo_env ''https://gcr.io/v2/_catalog'' (Request_method None None) None
      None None [True, False] None demo_transport \<lparr>pending = [(resp200, ''ok'')], calls = []\<rparr> =
     (Inr (Some (resp200, ''ok'')), demo_transport,
      \<lparr>pending = [],
       calls = [attempt_request demo_env (Bearer (JString ''old'')) ''https://gcr.io/v2/_catalog''
                  ''GET'' None None None]\<rparr>)"
    by (simp add: Request_attempt_def transport_request_def demo_transport_def resp200_def
          UNAUTHORIZED_def Request_method_def attempt_request_def)
  from Request_accepted_codes_None [of demo_env demo_transport
         "\<lparr>pending = [(resp200, ''ok'')], calls = []\<rparr>" "''https://gcr.io/v2/_catalog''"
         None None None None] L
  show ?thesis by simp
qed

section \<open>What \<open>Request\<close> sends (C8)\<close>

lemma Request_attempt_Some:
  assumes "bearer_creds self = Some b"
  shows "Request_attempt e self w url m body ct am =
           (case pending w of
              [] \<Rightarrow> (Inl TransportError,
                     w\<lparr>calls := calls w @ [attempt_request e b url m body ct am]\<rparr>)
            | r # rs \<Rightarrow> (Inr r, w\<lparr>pending := rs,
                                 calls := calls w @ [attempt_request e b url m body ct am]\<rparr>))"
  using assms
  by (simp add: Request_attempt_def transport_request_def attempt_request_def
           split: list.splits)

lemma Request_attempt_calls:
  assumes "bearer_creds self = Some b"
    and "Request_attempt e self w url m body ct am = (res, w1)"
  shows "calls w1 = calls w @ [attempt_request e b url m body ct am]"
  using assms(2) by (auto simp: Request_attempt_Some [OF assms(1)] split: list.splits)

lemma Refresh_calls:
  assumes "Refresh e self w = (res, self1, w1)"
  shows "calls w1 = calls w \<or> calls w1 = calls w @ [exchange_request e self]"
  using assms
  by (auto simp: Refresh_def Let_def transport_request_def exchange_request_def
           split: option.splits sum.splits prod.splits list.splits)

lemma Refresh_Inr:
  assumes "Refresh e self w = (Inr u, self1, w1)"
  shows "calls w1 = calls w @ [exchange_request e self]
         \<and> (\<exists>tok. self1 = self\<lparr>bearer_creds := Some (Bearer tok)\<rparr>)"
  using assms
  by (auto simp: Refresh_def Let_def transport_request_def exchange_request_def
           split: option.splits sum.splits prod.splits list.splits)

lemma Refresh_Inl:
  assumes "Refresh e self w = (Inl x, self1, w1)"
  shows "self1 = self"
  using assms
  by (auto simp: Refresh_def Let_def split: option.splits sum.splits prod.splits)

lemma Request_headers_lookup:
  "map_of (Request_headers e b m body ct am) ''Authorization'' = Some (Get e b)"
  "map_of (Request_headers e b m body ct am) ''user-agent'' = Some (USER_AGENT e)"
  "map_of (Request_headers e b m body ct am) ''content-type'' =
     (if truthy body then Some (if truthy ct then the ct else ''application/json'') else None)"
  "map_of (Request_headers e b m body ct am) ''Accept'' = map_option (join '','') am"
  "map_of (Request_headers e b m body ct am) ''content-length'' =
     (if (m = ''POST'' \<or> m = ''PUT'') \<and> \<not> truthy body then Some ''0'' else None)"
  by (simp_all add: Request_headers_def Let_def update_conv' split: option.splits)

lemma Request_loop_calls:
  assumes "bearer_creds self = Some b0"
    and "Request_loop e url m body ct am [True, False] None self w = (res, self1, w1)"
  shows "\<exists>b1. bearer_creds self1 = Some b1
           \<and> (calls w1 = calls w @ [attempt_request e b0 url m body ct am]
              \<or> calls w1 = calls w @ [attempt_request e b0 url m body ct am,
                                       exchange_request e self]
              \<or> calls w1 = calls w @ [attempt_request e b0 url m body ct am,
                                       exchange_request e self,
                                       attempt_request e b1 url m body ct am])"
proof -
  obtain ra wa where att: "Request_attempt e self w url m body ct am = (ra, wa)"
    by (cases "Request_attempt e self w url m body ct am")
  have ca: "calls wa = calls w @ [attempt_request e b0 url m body ct am]"
    using assms(1) att by (rule Request_attempt_calls)
  show ?thesis
  proof (cases ra)
    case (Inl x)
    with assms att ca show ?thesis by simp
  next
    case (Inr rc)
    obtain resp content where rc: "rc = (resp, content)" by (cases rc)
    show ?thesis
    proof (cases "status resp \<noteq> UNAUTHORIZED")
      case True
      with assms att Inr rc ca show ?thesis by simp
    next
      case F: False
      obtain rr s2 w2 where rf: "Refresh e self wa = (rr, s2, w2)"
        by (cases "Refresh e self wa")
      show ?thesis
      proof (cases rr)
        case (Inl x)
        have "s2 = self" using rf [unfolded Inl] by (rule Refresh_Inl)
        moreover from assms(2) att Inr rc F rf Inl have "self1 = s2" "w1 = w2" by simp_all
        ultimately show ?thesis
          using Refresh_calls [OF rf] ca assms(1) by auto
      next
        case R: (Inr u)
        from Refresh_Inr [OF rf [unfolded R]] obtain tok
          where c2: "calls w2 = calls wa @ [exchange_request e self]"
            and s2: "s2 = self\<lparr>bearer_creds := Some (Bearer tok)\<rparr>" by blast
        have b2: "bearer_creds s2 = Some (Bearer tok)" using s2 by simp
        obtain rb wb where att2: "Request_attempt e s2 w2 url m body ct am = (rb, wb)"
          by (cases "Request_attempt e s2 w2 url m body ct am")
        have cb: "calls wb = calls w2 @ [attempt_request e (Bearer tok) url m body ct am]"
          using b2 att2 by (rule Request_attempt_calls)
        from assms(2) att Inr rc F rf R att2
        have "self1 = s2 \<and> w1 = wb"
          by (auto split: sum.splits prod.splits if_splits)
        with b2 cb c2 ca show ?thesis by auto
      qed
    qed
  qed
qed

text \<open>
  C8. \<open>Request\<close> hands the HTTP transport one request per attempt, and between two
  attempts the request of the token exchange. Each attempt carries the URL, the method
  (after defaulting) and the body given, with headers built from the credential that is
  current at that moment: \<open>Authorization\<close> is that credential's value (for a token
  that is a string, \<open>Bearer\<close> and the token), \<open>user-agent\<close> is \<open>USER_AGENT\<close>,
  \<open>content-type\<close> is there exactly when the body is neither \<open>None\<close> nor empty (the
  given content type, else \<open>application/json\<close>), \<open>Accept\<close> exactly when
  \<open>accepted_mimes\<close> is given (joined with commas), and \<open>content-length: 0\<close> exactly
  when the method is \<open>POST\<close> or \<open>PUT\<close> and there is no body.
\<close>

theorem Request_sends_headers:
  assumes "bearer_creds self = Some b0"
    and "Request e self w url accepted_codes method body content_type accepted_mimes
           = (res, self1, w1)"
    and "m = Request_method method body"
  shows "(\<exists>b1. bearer_creds self1 = Some b1
           \<and> (calls w1 = calls w @ [attempt_request e b0 url m body content_type accepted_mimes]
              \<or> calls w1 = calls w @ [attempt_request e b0 url m body content_type accepted_mimes,
                                       exchange_request e self]
              \<or> calls w1 = calls w @ [attempt_request e b0 url m body content_type accepted_mimes,
                                       exchange_request e self,
                                       attempt_request e b1 url m body content_type accepted_mimes]))
       \<and> (\<forall>b. let rq = attempt_request e b url m body content_type accepted_mimes;
                  h = map_of (req_headers rq)
              in req_url rq = url \<and> req_method rq = m \<and> req_body rq = body
                 \<and> h ''Authorization'' = Some (Get e b)
                 \<and> h ''user-agent'' = Some (USER_AGENT e)
                 \<and> h ''content-type'' =
                     (if truthy body
                      then Some (if truthy content_type then the content_type
                                 else ''application/json'')
                      else None)
                 \<and> h ''Accept'' = map_option (join '','') accepted_mimes
                 \<and> h ''content-length'' =
                     (if (m = ''POST'' \<or> m = ''PUT'') \<and> \<not> truthy body then Some ''0'' else None))
       \<and> (\<forall>tok. Get e (Bearer (JString tok)) = ''Bearer '' @ tok)"
proof (intro conjI)
  obtain r s2 w2 where L:
    "Request_loop e url m body content_type accepted_mimes [True, False] None self w = (r, s2, w2)"
    by (cases "Request_loop e url m body content_type accepted_mimes [True, False] None self w")
  from assms(2) L assms(3) have "self1 = s2" "w1 = w2"
    by (auto simp: Request_def Let_def simp del: Request_loop.simps
             split: sum.splits option.splits if_splits prod.splits)
  with Request_loop_calls [OF assms(1) L]
  show "\<exists>b1. bearer_creds self1 = Some b1
           \<and> (calls w1 = calls w @ [attempt_request e b0 url m body content_type accepted_mimes]
              \<or> calls w1 = calls w @ [attempt_request e b0 url m body content_type accepted_mimes,
                                       exchange_request e self]
              \<or> calls w1 = calls w @ [attempt_request e b0 url m body content_type accepted_mimes,
                                       exchange_request e self,
                                       attempt_request e b1 url m body content_type accepted_mimes])"
    by simp
next
  show "\<forall>b. let rq = attempt_request e b url m body content_type accepted_mimes;
                  h = map_of (req_headers rq)
              in req_url rq = url \<and> req_method rq = m \<and> req_body rq = body
                 \<and> h ''Authorization'' = Some (Get e b)
                 \<and> h ''user-agent'' = Some (USER_AGENT e)
                 \<and> h ''content-type'' =
                     (if truthy body
                      then Some (if truthy content_type then the content_type
                                 else ''application/json'')
                      else None)
                 \<and> h ''Accept'' = map_option (join '','') accepted_mimes
                 \<and> h ''content-length'' =
                     (if (m = ''POST'' \<or> m = ''PUT'') \<and> \<not> truthy body then Some ''0'' else None)"
    by (simp add: Let_def attempt_request_def Request_headers_lookup)
next
  show "\<forall>tok. Get e (Bearer (JString tok)) = ''Bearer '' @ tok" by simp
qed

section \<open>The retry of \<open>Request\<close> on 401 (C1)\<close>

lemma diag_lines_objects:
  "\<forall>d \<in> set ds. \<exists>fs. d = Diagnostic (JObject fs) \<Longrightarrow> \<exists>ls. diag_lines e ds = Inr ls"
proof (induction ds)
  case Nil
  then show ?case by simp
next
  case (Cons d ds)
  then obtain fs ls where "d = Diagnostic (JObject fs)" and "diag_lines e ds = Inr ls"
    by auto
  then show ?case by (simp add: diag_line_def message_def detail_def)
qed

lemma raise_V2DiagnosticException_objects:
  assumes "DiagnosticsFromContent e content = Inr ds"
    and "\<forall>d \<in> set ds. \<exists>fs. d = Diagnostic (JObject fs)"
  shows "raise_V2DiagnosticException e resp content = V2DiagnosticException resp ds"
proof -
  from diag_lines_objects [OF assms(2)] obtain ls where "diag_lines e ds = Inr ls" ..
  with assms(1) show ?thesis by (simp add: raise_V2DiagnosticException_def)
qed

lemma Request_refresh_raises:
  assumes "bearer_creds self = Some b"
    and "pending w = (r1, c1) # (r2, c2) # rest2" and "status r1 = 401"
    and "Refresh e self (w\<lparr>pending := (r2, c2) # rest2,
            calls := calls w @ [attempt_request e b url (Request_method method body) body ct am]\<rparr>)
           = (Inl x, self2, w2)"
  shows "Request e self w url codes method body ct am = (Inl x, self2, w2)"
  using assms(2-4)
  by (simp add: Request_def Let_def Request_attempt_Some [OF assms(1)] UNAUTHORIZED_def)

lemma Request_refresh_fails:
  assumes "bearer_creds self = Some b" and "realm self = Some rlm" and "service self = Some svc"
    and "pending w = (r1, c1) # (r2, c2) # rest2" and "status r1 = 401"
    and "status r2 \<noteq> 200"
  shows "Request e self w url codes method body ct am =
           (Inl (BadStateException (''Bad status during token exchange: '' @ show_int (status r2)
                                    @ [CHR 0x0A] @ c2)), self,
            w\<lparr>pending := rest2,
              calls := calls w @ [attempt_request e b url (Request_method method body) body ct am,
                                  exchange_request e self]\<rparr>)"
proof -
  define m where "m = Request_method method body"
  define w1 where "w1 = w\<lparr>pending := (r2, c2) # rest2,
                          calls := calls w @ [attempt_request e b url m body ct am]\<rparr>"
  have att: "Request_attempt e self w url m body ct am = (Inr (r1, c1), w1)"
    using assms(4) by (simp add: Request_attempt_Some [OF assms(1)] w1_def)
  have p1: "pending w1 = (r2, c2) # rest2" by (simp add: w1_def)
  have rf: "Refresh e self w1 =
     (Inl (BadStateException (''Bad status during token exchange: '' @ show_int (status r2)
                              @ [CHR 0x0A] @ c2)), self,
      w1\<lparr>pending := rest2, calls := calls w1 @ [exchange_request e self]\<rparr>)"
    using assms(2,3) p1 assms(6) by (rule Refresh_bad_status)
  show ?thesis
    using att rf assms(5)
    by (simp add: Request_def Let_def m_def [symmetric] UNAUTHORIZED_def w1_def)
qed

lemma Request_refresh_succeeds:
  assumes "bearer_creds self = Some b" and "realm self = Some rlm" and "service self = Some svc"
    and "pending w = (r1, c1) # (r2, c2) # (r3, c3) # rest" and "status r1 = 401"
    and "status r2 = 200" and "loads e c2 = Some (JObject kvs)"
    and "map_of kvs ''token'' = Some tok"
  shows "Request e self w url codes method body ct am =
           (final_check e codes r3 c3, self\<lparr>bearer_creds := Some (Bearer tok)\<rparr>,
            w\<lparr>pending := rest,
              calls := calls w @ [attempt_request e b url (Request_method method body) body ct am,
                                  exchange_request e self,
                                  attempt_request e (Bearer tok) url (Request_method method body)
                                    body ct am]\<rparr>)"
proof -
  define m where "m = Request_method method body"
  define w1 where "w1 = w\<lparr>pending := (r2, c2) # (r3, c3) # rest,
                          calls := calls w @ [attempt_request e b url m body ct am]\<rparr>"
  define w2 where "w2 = w1\<lparr>pending := (r3, c3) # rest,
                           calls := calls w1 @ [exchange_request e self]\<rparr>"
  define self2 where "self2 = self\<lparr>bearer_creds := Some (Bearer tok)\<rparr>"
  have att: "Request_attempt e self w url m body ct am = (Inr (r1, c1), w1)"
    using assms(4) by (simp add: Request_attempt_Some [OF assms(1)] w1_def)
  have p1: "pending w1 = (r2, c2) # (r3, c3) # rest" by (simp add: w1_def)
  have key: "''token'' \<in> set (map fst kvs)"
    using assms(8) by (metis map_of_eq_None_iff option.distinct(1) set_map)
  have rf: "Refresh e self w1 = (Inr (), self2, w2)"
    using assms(7,8) key
    by (simp add: Refresh_ok_status [OF assms(2,3) p1 assms(6)] self2_def w2_def)
  have b2: "bearer_creds self2 = Some (Bearer tok)" by (simp add: self2_def)
  have att2: "Request_attempt e self2 w2 url m body ct am =
                (Inr (r3, c3), w2\<lparr>pending := rest,
                   calls := calls w2 @ [attempt_request e (Bearer tok) url m body ct am]\<rparr>)"
    by (simp add: Request_attempt_Some [OF b2] w2_def)
  have loop: "Request_loop e url m body ct am [True, False] None self w =
                (Inr (Some (r3, c3)), self2,
                 w2\<lparr>pending := rest,
                    calls := calls w2 @ [attempt_request e (Bearer tok) url m body ct am]\<rparr>)"
    using att rf att2 assms(5) by (simp add: UNAUTHORIZED_def)
  show ?thesis
    unfolding Request_def Let_def m_def [symmetric] loop
    by (simp add: self2_def w2_def w1_def)
qed

text \<open>
  C1, as amended. A call of \<open>Request\<close> on a constructed object whose first response
  has status 401 calls \<open>_Refresh\<close> once, which sends the token exchange through the same
  HTTP transport. If \<open>_Refresh\<close> raises, as it does with \<open>BadStateException\<close> when
  the exchange is not answered with 200, that is what \<open>Request\<close> raises, and the
  request is not sent again. If the
  exchange succeeds, the request is sent exactly once more, with the new token, and
  whatever the status of the second response, there is no third attempt and no second
  \<open>_Refresh\<close>: the HTTP transport has been called three times (attempt, exchange,
  attempt) and the result is decided by the final check on the second response, which
  raises \<open>V2DiagnosticException\<close> when its status (401 or any other) is not accepted
  and the decoded diagnostics are objects.
\<close>

theorem Request_retries_once:
  assumes "bearer_creds self = Some b" and "realm self = Some rlm" and "service self = Some svc"
    and "pending w = (r1, c1) # (r2, c2) # rest2" and "status r1 = 401"
    and "m = Request_method method body"
  shows "(status r2 \<noteq> 200 \<longrightarrow>
           Request e self w url codes method body ct am =
             (Inl (BadStateException (''Bad status during token exchange: ''
                                      @ show_int (status r2) @ [CHR 0x0A] @ c2)), self,
              w\<lparr>pending := rest2,
                calls := calls w @ [attempt_request e b url m body ct am,
                                    exchange_request e self]\<rparr>))
       \<and> (\<forall>kvs tok r3 c3 rest.
            status r2 = 200 \<and> loads e c2 = Some (JObject kvs) \<and> map_of kvs ''token'' = Some tok
            \<and> rest2 = (r3, c3) # rest \<longrightarrow>
            Request e self w url codes method body ct am =
              (final_check e codes r3 c3, self\<lparr>bearer_creds := Some (Bearer tok)\<rparr>,
               w\<lparr>pending := rest,
                 calls := calls w @ [attempt_request e b url m body ct am,
                                     exchange_request e self,
                                     attempt_request e (Bearer tok) url m body ct am]\<rparr>))
       \<and> (\<forall>r3 c3 cs ds.
            status r3 \<notin> set cs \<and> DiagnosticsFromContent e c3 = Inr ds
            \<and> (\<forall>d \<in> set ds. \<exists>fs. d = Diagnostic (JObject fs)) \<longrightarrow>
            final_check e (Some cs) r3 c3 = Inl (V2DiagnosticException r3 ds))
       \<and> (\<forall>r3 c3 cs. status r3 \<in> set cs \<longrightarrow> final_check e (Some cs) r3 c3 = Inr (r3, c3))
       \<and> (\<forall>x self2 w2.
            Refresh e self (w\<lparr>pending := (r2, c2) # rest2,
                              calls := calls w @ [attempt_request e b url m body ct am]\<rparr>)
              = (Inl x, self2, w2)
            \<longrightarrow> Request e self w url codes method body ct am = (Inl x, self2, w2))"
proof (intro conjI allI impI)
  fix x self2 w2
  assume "Refresh e self (w\<lparr>pending := (r2, c2) # rest2,
                            calls := calls w @ [attempt_request e b url m body ct am]\<rparr>)
            = (Inl x, self2, w2)"
  with assms(1,4,5) show "Request e self w url codes method body ct am = (Inl x, self2, w2)"
    unfolding assms(6) by (rule Request_refresh_raises)
next
  assume "status r2 \<noteq> 200"
  with assms(1-5) show "Request e self w url codes method body ct am =
             (Inl (BadStateException (''Bad status during token exchange: ''
                                      @ show_int (status r2) @ [CHR 0x0A] @ c2)), self,
              w\<lparr>pending := rest2,
                calls := calls w @ [attempt_request e b url m body ct am,
                                    exchange_request e self]\<rparr>)"
    unfolding assms(6) by (rule Request_refresh_fails)
next
  fix kvs tok r3 c3 rest
  assume h: "status r2 = 200 \<and> loads e c2 = Some (JObject kvs) \<and> map_of kvs ''token'' = Some tok
            \<and> rest2 = (r3, c3) # rest"
  then have p: "pending w = (r1, c1) # (r2, c2) # (r3, c3) # rest"
    using assms(4) by simp
  from h have h1: "status r2 = 200" and h2: "loads e c2 = Some (JObject kvs)"
    and h3: "map_of kvs ''token'' = Some tok" by simp_all
  show "Request e self w url codes method body ct am =
              (final_check e codes r3 c3, self\<lparr>bearer_creds := Some (Bearer tok)\<rparr>,
               w\<lparr>pending := rest,
                 calls := calls w @ [attempt_request e b url m body ct am,
                                     exchange_request e self,
                                     attempt_request e (Bearer tok) url m body ct am]\<rparr>)"
    unfolding assms(6)
    using assms(1-3) p assms(5) h1 h2 h3 by (rule Request_refresh_succeeds)
next
  fix r3 :: response and c3 :: string and cs ds
  assume "status r3 \<notin> set cs \<and> DiagnosticsFromContent e c3 = Inr ds
            \<and> (\<forall>d \<in> set ds. \<exists>fs. d = Diagnostic (JObject fs))"
  then show "final_check e (Some cs) r3 c3 = Inl (V2DiagnosticException r3 ds)"
    by (simp add: final_check_def raise_V2DiagnosticException_objects)
next
  fix r3 :: response and c3 :: string and cs
  assume "status r3 \<in> set cs"
  then show "final_check e (Some cs) r3 c3 = Inr (r3, c3)"
    by (simp add: final_check_def)
qed

subsection \<open>The retry at concrete responses\<close>

lemma demo_transport_fields:
  "bearer_creds demo_transport = Some (Bearer (JString ''old''))"
  "realm demo_transport = Some ''https://gcr.io/v2/token''"
  "service demo_transport = Some ''gcr.io''"
  by (simp_all add: demo_transport_def)

lemma demo_statuses: "status resp401 = 401" "status resp200 = 200" "status resp401 \<noteq> 200"
  by (simp_all add: resp401_def resp200_def)

lemma demo_loads_token:
  "loads demo_env ''{\"token\":\"abc123\"}'' = Some (JObject [(''token'', JString ''abc123'')])"
  by (simp add: demo_env_def demo_loads_def)

lemma demo_loads_empty: "loads demo_env [] = None"
  by (simp add: demo_env_def demo_loads_def)

lemma show_int_401: "show_int 401 = ''401''"
  by code_simp

lemma final_check_demo:
  "final_check demo_env (Some [200]) resp401 [] =
     Inl (V2DiagnosticException resp401
            [Diagnostic (JObject [(''code'', JString ''UNKNOWN''), (''message'', JString [])])])"
  by (simp add: final_check_def raise_V2DiagnosticException_def DiagnosticsFromContent_def
        Diagnostics_try_def demo_loads_empty diag_line_def message_def detail_def resp401_def)

theorem Request_retries_once_witness:
  "bearer_creds demo_transport = Some (Bearer (JString ''old'')) \<and> status resp401 = 401
   \<and> Request demo_env demo_transport
       \<lparr>pending = [(resp401, []), (resp200, ''{\"token\":\"abc123\"}''), (resp401, [])],
        calls = []\<rparr>
       ''https://gcr.io/v2/foo/manifests/latest'' (Some [200]) None None None None =
     (Inl (V2DiagnosticException resp401
             [Diagnostic (JObject [(''code'', JString ''UNKNOWN''), (''message'', JString [])])]),
      demo_transport\<lparr>bearer_creds := Some (Bearer (JString ''abc123''))\<rparr>,
      \<lparr>pending = [],
       calls = [attempt_request demo_env (Bearer (JString ''old''))
                  ''https://gcr.io/v2/foo/manifests/latest'' ''GET'' None None None,
                exchange_request demo_env demo_transport,
                attempt_request demo_env (Bearer (JString ''abc123''))
                  ''https://gcr.io/v2/foo/manifests/latest'' ''GET'' None None None]\<rparr>)
   \<and> Request demo_env demo_transport
       \<lparr>pending = [(resp401, []), (\<lparr>status = 503, resp_headers = []\<rparr>, ''busy'')], calls = []\<rparr>
       ''https://gcr.io/v2/foo/manifests/latest'' (Some [200]) None None None None =
     (Inl (BadStateException (''Bad status during token exchange: 503'' @ [CHR 0x0A] @ ''busy'')),
      demo_transport,
      \<lparr>pending = [],
       calls = [attempt_request demo_env (Bearer (JString ''old''))
                  ''https://gcr.io/v2/foo/manifests/latest'' ''GET'' None None None,
                exchange_request demo_env demo_transport]\<rparr>)"
proof -
  have p: "pending \<lparr>pending = [(resp401, []), (resp200, ''{\"token\":\"abc123\"}''), (resp401, [])],
                    calls = []\<rparr>
           = (resp401, []) # (resp200, ''{\"token\":\"abc123\"}'') # [(resp401, [])]"
    by simp
  have q: "pending \<lparr>pending = [(resp401, []), (\<lparr>status = 503, resp_headers = []\<rparr>, ''busy'')],
                    calls = []\<rparr>
           = (resp401, []) # (\<lparr>status = 503, resp_headers = []\<rparr>, ''busy'') # []"
    by simp
  have s: "show_int 503 = ''503''" by code_simp
  have m: "''GET'' = Request_method None None" by (simp add: Request_method_def)
  from Request_retries_once [OF demo_transport_fields p demo_statuses(1) m,
         of demo_env "''https://gcr.io/v2/foo/manifests/latest''" "Some [200]" None None]
       Request_retries_once [OF demo_transport_fields q demo_statuses(1) m,
         of demo_env "''https://gcr.io/v2/foo/manifests/latest''" "Some [200]" None None]
  show ?thesis
    by (simp add: demo_transport_fields demo_statuses demo_loads_token final_check_demo s)
qed

text \<open>
  C1 as the claim states it fails either way it is read. When the HTTP transport answers
  401 twice in a row, its second answer goes to the token exchange, and the call raises
  \<open>BadStateException\<close> after two invocations, the request having been sent once. When
  the exchange succeeds and the request is answered with 401 again, the call raises
  \<open>V2DiagnosticException\<close> after three invocations of the HTTP transport, not two.
\<close>

theorem Request_two_401_counterexample:
  "Request demo_env demo_transport \<lparr>pending = [(resp401, []), (resp401, [])], calls = []\<rparr>
       ''https://gcr.io/v2/foo/manifests/latest'' (Some [200]) None None None None =
     (Inl (BadStateException (''Bad status during token exchange: 401'' @ [CHR 0x0A])),
      demo_transport,
      \<lparr>pending = [],
       calls = [attempt_request demo_env (Bearer (JString ''old''))
                  ''https://gcr.io/v2/foo/manifests/latest'' ''GET'' None None None,
                exchange_request demo_env demo_transport]\<rparr>)
   \<and> fst (Request demo_env demo_transport
       \<lparr>pending = [(resp401, []), (resp200, ''{\"token\":\"abc123\"}''), (resp401, [])],
        calls = []\<rparr>
       ''https://gcr.io/v2/foo/manifests/latest'' (Some [200]) None None None None) =
     Inl (V2DiagnosticException resp401
            [Diagnostic (JObject [(''code'', JString ''UNKNOWN''), (''message'', JString [])])])
   \<and> length (calls (snd (snd (Request demo_env demo_transport
       \<lparr>pending = [(resp401, []), (resp200, ''{\"token\":\"abc123\"}''), (resp401, [])],
        calls = []\<rparr>
       ''https://gcr.io/v2/foo/manifests/latest'' (Some [200]) None None None None)))) = 3"
proof -
  have p2: "pending \<lparr>pending = [(resp401, []), (resp401, [])], calls = []\<rparr>
           = (resp401, []) # (resp401, []) # []"
    by simp
  have p3: "pending \<lparr>pending = [(resp401, []), (resp200, ''{\"token\":\"abc123\"}''), (resp401, [])],
                    calls = []\<rparr>
           = (resp401, []) # (resp200, ''{\"token\":\"abc123\"}'') # (resp401, []) # []"
    by simp
  have m: "Request_method None None = ''GET''" by (simp add: Request_method_def)
  have tok: "map_of [(''token'', JString ''abc123'')] ''token'' = Some (JString ''abc123'')"
    by simp
  show ?thesis
    by (simp add: Request_refresh_fails [OF demo_transport_fields p2 demo_statuses(1,3)]
          Request_refresh_succeeds [OF demo_transport_fields p3 demo_statuses(1,2)
            demo_loads_token tok]
          demo_statuses(1) show_int_401 m final_check_demo)
qed

theorem Request_sends_headers_witness:
  "bearer_creds demo_transport = Some (Bearer (JString ''old''))
   \<and> Request demo_env demo_transport
       \<lparr>pending = [(resp401, []), (resp200, ''{\"token\":\"abc123\"}''), (resp200, ''ok'')],
        calls = []\<rparr>
       ''https://gcr.io/v2/foo/blobs/uploads/'' (Some [200]) (Some ''POST'') None None
       (Some [''application/json'', ''text/plain'']) =
     (Inr (resp200, ''ok''),
      demo_transport\<lparr>bearer_creds := Some (Bearer (JString ''abc123''))\<rparr>,
      \<lparr>pending = [],
       calls = [attempt_request demo_env (Bearer (JString ''old''))
                  ''https://gcr.io/v2/foo/blobs/uploads/'' ''POST'' None None
                  (Some [''application/json'', ''text/plain'']),
                exchange_request demo_env demo_transport,
                attempt_request demo_env (Bearer (JString ''abc123''))
                  ''https://gcr.io/v2/foo/blobs/uploads/'' ''POST'' None None
                  (Some [''application/json'', ''text/plain''])]\<rparr>)
   \<and> req_headers (attempt_request demo_env (Bearer (JString ''abc123''))
                  ''https://gcr.io/v2/foo/blobs/uploads/'' ''POST'' None None
                  (Some [''application/json'', ''text/plain''])) =
       [(''Authorization'', ''Bearer abc123''), (''user-agent'', ''docker-client''),
        (''Accept'', ''application/json,text/plain''), (''content-length'', ''0'')]
   \<and> map_of (req_headers (attempt_request demo_env (Bearer (JString ''abc123''))
                  ''https://gcr.io/v2/foo/blobs/uploads/'' ''POST'' None None
                  (Some [''application/json'', ''text/plain'']))) ''content-type'' = None"
proof -
  have p3: "pending \<lparr>pending = [(resp401, []), (resp200, ''{\"token\":\"abc123\"}''),
                                (resp200, ''ok'')], calls = []\<rparr>
           = (resp401, []) # (resp200, ''{\"token\":\"abc123\"}'') # (resp200, ''ok'') # []"
    by simp
  have m: "''POST'' = Request_method (Some ''POST'') None" by (simp add: Request_method_def)
  have tok: "map_of [(''token'', JString ''abc123'')] ''token'' = Some (JString ''abc123'')"
    by simp
  have fc: "final_check demo_env (Some [200]) resp200 ''ok'' = Inr (resp200, ''ok'')"
    by (simp add: final_check_def resp200_def)
  have R: "Request demo_env demo_transport
       \<lparr>pending = [(resp401, []), (resp200, ''{\"token\":\"abc123\"}''), (resp200, ''ok'')],
        calls = []\<rparr>
       ''https://gcr.io/v2/foo/blobs/uploads/'' (Some [200]) (Some ''POST'') None None
       (Some [''application/json'', ''text/plain'']) =
     (Inr (resp200, ''ok''),
      demo_transport\<lparr>bearer_creds := Some (Bearer (JString ''abc123''))\<rparr>,
      \<lparr>pending = [],
       calls = [] @ [attempt_request demo_env (Bearer (JString ''old''))
                  ''https://gcr.io/v2/foo/blobs/uploads/'' ''POST'' None None
                  (Some [''application/json'', ''text/plain'']),
                exchange_request demo_env demo_transport,
                attempt_request demo_env (Bearer (JString ''abc123''))
                  ''https://gcr.io/v2/foo/blobs/uploads/'' ''POST'' None None
                  (Some [''application/json'', ''text/plain''])]\<rparr>)"
    by (simp add: Request_refresh_succeeds [OF demo_transport_fields p3 demo_statuses(1,2)
            demo_loads_token tok] m [symmetric] fc)
  have H: "req_headers (attempt_request demo_env (Bearer (JString ''abc123''))
                  ''https://gcr.io/v2/foo/blobs/uploads/'' ''POST'' None None
                  (Some [''application/json'', ''text/plain''])) =
       [(''Authorization'', ''Bearer abc123''), (''user-agent'', ''docker-client''),
        (''Accept'', ''application/json,text/plain''), (''content-length'', ''0'')]"
    by (simp add: attempt_request_def Request_headers_def demo_env_def)
  from Request_sends_headers [OF demo_transport_fields(1) R m, THEN conjunct2, THEN conjunct1,
         THEN spec, of "Bearer (JString ''abc123'')"]
  have "map_of (req_headers (attempt_request demo_env (Bearer (JString ''abc123''))
                  ''https://gcr.io/v2/foo/blobs/uploads/'' ''POST'' None None
                  (Some [''application/json'', ''text/plain'']))) ''content-type'' = None"
    by (simp add: Let_def)
  with R H demo_transport_fields(1) show ?thesis by simp
qed

section \<open>The next link and pagination (C7)\<close>

lemma startswith_append: "startswith s p \<Longrightarrow> \<exists>q. s = p @ q"
  unfolding startswith_def by (metis append_take_drop_id)

lemma str_contains_append: "str_contains (p @ k @ s) k"
proof (induction p)
  case Nil
  have "startswith (k @ s) k" by (simp add: startswith_def)
  then show ?case by (cases "k @ s") simp_all
next
  case (Cons c p)
  then show ?case by simp
qed

lemma rel_next_contains: "rel_next s \<Longrightarrow> \<exists>p q. s = p @ ''rel=\"next\"'' @ q"
proof -
  assume "rel_next s"
  then obtain q where "dropWhile is_space s = ''rel=\"next\"'' @ q"
    unfolding rel_next_def by (blast dest: startswith_append)
  then have "s = takeWhile is_space s @ ''rel=\"next\"'' @ q"
    by (metis takeWhile_dropWhile_id)
  then show ?thesis by blast
qed

lemma match_group_contains:
  assumes "match_group r = Some g"
  shows "\<exists>p q. r = p @ ''rel=\"next\"'' @ q"
proof -
  from assms obtain j where "rel_next (drop (j + 2) r)"
    by (auto simp: match_group_def find_Some_iff)
  then obtain p q where "drop (j + 2) r = p @ ''rel=\"next\"'' @ q"
    by (blast dest: rel_next_contains)
  then have "r = (take (j + 2) r @ p) @ ''rel=\"next\"'' @ q"
    by (metis append_take_drop_id append.assoc)
  then show ?thesis by blast
qed

lemma re_match_next_contains:
  assumes "re_match_next link = Some g"
  shows "\<exists>p q. link = p @ ''rel=\"next\"'' @ q"
proof -
  from assms obtain i where "match_group (drop (Suc i) link) = Some g"
    by (auto simp: re_match_next_def split: option.splits)
  then obtain p q where "drop (Suc i) link = p @ ''rel=\"next\"'' @ q"
    by (blast dest: match_group_contains)
  then have "link = (take (Suc i) link @ p) @ ''rel=\"next\"'' @ q"
    by (metis append_take_drop_id append.assoc)
  then show ?thesis by blast
qed

lemma re_match_next_page2:
  "re_match_next ''<https://x/y?page=2>; rel=\"next\"'' = Some ''https://x/y?page=2''"
  by code_simp

lemma PaginatedRequest_step:
  assumes "url \<noteq> []"
    and "Request e self w url codes method body ct None = (Inr (resp, content), self1, w1)"
  shows "PaginatedRequest e self w (Some url) codes method body ct =
           (case PaginatedRequest e self1 w1 (ParseNextLinkHeader resp) codes method body ct of
              (pages, r) \<Rightarrow> ((resp, content) # pages, r))"
  using assms by (subst PaginatedRequest.simps) simp

lemma PaginatedRequest_None:
  "PaginatedRequest e self w None codes method body ct = ([], None, self, w)"
  by (subst PaginatedRequest.simps) simp

text \<open>
  C7. \<open>ParseNextLinkHeader\<close> returns \<open>https://x/y?page=2\<close> on the link header
  \<open><https://x/y?page=2>; rel="next"\<close>, and \<open>None\<close> when there is no link header or
  the header does not contain \<open>rel="next"\<close> at all (as one with \<open>rel="prev"\<close> entries
  only). Each pass of the loop of \<open>PaginatedRequest\<close> makes one \<open>Request\<close> to the
  current URL and yields its result; when \<open>ParseNextLinkHeader\<close> returns \<open>None\<close> on
  the response the generator ends there, having yielded that page once, and otherwise
  it goes on from the URL returned.
\<close>

theorem ParseNextLinkHeader_pagination:
  "(map_of (resp_headers resp) ''link'' = Some ''<https://x/y?page=2>; rel=\"next\"''
      \<longrightarrow> ParseNextLinkHeader resp = Some ''https://x/y?page=2'')
   \<and> (map_of (resp_headers resp) ''link'' = None \<longrightarrow> ParseNextLinkHeader resp = None)
   \<and> (\<forall>link. map_of (resp_headers resp) ''link'' = Some link
          \<and> (\<nexists>p q. link = p @ ''rel=\"next\"'' @ q)
        \<longrightarrow> ParseNextLinkHeader resp = None)
   \<and> (\<forall>url content self1 w1.
        url \<noteq> [] \<and> Request e self w url codes method body ct None = (Inr (resp, content), self1, w1)
        \<longrightarrow> (ParseNextLinkHeader resp = None
               \<longrightarrow> PaginatedRequest e self w (Some url) codes method body ct =
                     ([(resp, content)], None, self1, w1))
          \<and> (\<forall>nxt. ParseNextLinkHeader resp = Some nxt
               \<longrightarrow> PaginatedRequest e self w (Some url) codes method body ct =
                     (case PaginatedRequest e self1 w1 (Some nxt) codes method body ct of
                        (pages, r) \<Rightarrow> ((resp, content) # pages, r))))"
proof (intro conjI allI impI)
  assume "map_of (resp_headers resp) ''link'' = Some ''<https://x/y?page=2>; rel=\"next\"''"
  then show "ParseNextLinkHeader resp = Some ''https://x/y?page=2''"
    by (simp add: ParseNextLinkHeader_def Let_def re_match_next_page2)
next
  assume "map_of (resp_headers resp) ''link'' = None"
  then show "ParseNextLinkHeader resp = None"
    by (simp add: ParseNextLinkHeader_def)
next
  fix link
  assume h: "map_of (resp_headers resp) ''link'' = Some link
          \<and> (\<nexists>p q. link = p @ ''rel=\"next\"'' @ q)"
  then have "re_match_next link = None"
    using re_match_next_contains [of link] by (cases "re_match_next link") auto
  with h show "ParseNextLinkHeader resp = None"
    by (simp add: ParseNextLinkHeader_def Let_def)
next
  fix url content self1 w1
  assume h: "url \<noteq> [] \<and> Request e self w url codes method body ct None
               = (Inr (resp, content), self1, w1)"
  assume "ParseNextLinkHeader resp = None"
  with h show "PaginatedRequest e self w (Some url) codes method body ct =
                 ([(resp, content)], None, self1, w1)"
    by (simp add: PaginatedRequest_step PaginatedRequest_None)
next
  fix url content self1 w1 nxt
  assume h: "url \<noteq> [] \<and> Request e self w url codes method body ct None
               = (Inr (resp, content), self1, w1)"
  assume "ParseNextLinkHeader resp = Some nxt"
  with h show "PaginatedRequest e self w (Some url) codes method body ct =
                 (case PaginatedRequest e self1 w1 (Some nxt) codes method body ct of
                    (pages, r) \<Rightarrow> ((resp, content) # pages, r))"
    by (simp add: PaginatedRequest_step)
qed

theorem ParseNextLinkHeader_pagination_witness:
  "ParseNextLinkHeader page_next = Some ''https://x/y?page=2''
   \<and> ParseNextLinkHeader page_prev = None
   \<and> ParseNextLinkHeader resp200 = None
   \<and> PaginatedRequest demo_env demo_transport
        \<lparr>pending = [(page_next, ''one''), (page_prev, ''two''), (resp200, ''three'')], calls = []\<rparr>
        (Some ''https://x/y'') (Some [200]) None None None =
      ([(page_next, ''one''), (page_prev, ''two'')], None, demo_transport,
       \<lparr>pending = [(resp200, ''three'')],
        calls = [attempt_request demo_env (Bearer (JString ''old'')) ''https://x/y'' ''GET''
                   None None None,
                 attempt_request demo_env (Bearer (JString ''old'')) ''https://x/y?page=2'' ''GET''
                   None None None]\<rparr>)"
proof -
  let ?w0 = "\<lparr>pending = [(page_next, ''one''), (page_prev, ''two''), (resp200, ''three'')],
              calls = []\<rparr>"
  let ?w1 = "\<lparr>pending = [(page_prev, ''two''), (resp200, ''three'')],
              calls = [attempt_request demo_env (Bearer (JString ''old'')) ''https://x/y'' ''GET''
                         None None None]\<rparr>"
  let ?w2 = "\<lparr>pending = [(resp200, ''three'')],
              calls = [attempt_request demo_env (Bearer (JString ''old'')) ''https://x/y'' ''GET''
                         None None None,
                       attempt_request demo_env (Bearer (JString ''old'')) ''https://x/y?page=2''
                         ''GET'' None None None]\<rparr>"
  have l1: "map_of (resp_headers page_next) ''link'' = Some ''<https://x/y?page=2>; rel=\"next\"''"
    by (simp add: page_next_def)
  have l2: "map_of (resp_headers page_prev) ''link'' = Some ''<https://x/y?page=1>; rel=\"prev\"''"
    by (simp add: page_prev_def)
  have l3: "map_of (resp_headers resp200) ''link'' = None"
    by (simp add: resp200_def)
  have "\<not> str_contains ''<https://x/y?page=1>; rel=\"prev\"'' ''rel=\"next\"''"
    by (simp add: startswith_def)
  then have no: "\<nexists>p q. ''<https://x/y?page=1>; rel=\"prev\"'' = p @ ''rel=\"next\"'' @ q"
    using str_contains_append by metis
  have R1: "Request demo_env demo_transport ?w0 ''https://x/y'' (Some [200]) None None None None
              = (Inr (page_next, ''one''), demo_transport, ?w1)"
    by (simp add: Request_def Let_def Request_attempt_def transport_request_def demo_transport_fields
          page_next_def UNAUTHORIZED_def Request_method_def attempt_request_def final_check_def)
  have R2: "Request demo_env demo_transport ?w1 ''https://x/y?page=2'' (Some [200]) None None
              None None = (Inr (page_prev, ''two''), demo_transport, ?w2)"
    by (simp add: Request_def Let_def Request_attempt_def transport_request_def demo_transport_fields
          page_prev_def UNAUTHORIZED_def Request_method_def attempt_request_def final_check_def)
  have u1: "''https://x/y'' \<noteq> []" and u2: "''https://x/y?page=2'' \<noteq> []" by simp_all
  note T1 = ParseNextLinkHeader_pagination [of page_next demo_env demo_transport ?w0
              "Some [200]" None None None]
  note T2 = ParseNextLinkHeader_pagination [of page_prev demo_env demo_transport ?w1
              "Some [200]" None None None]
  note T3 = ParseNextLinkHeader_pagination [of resp200 demo_env demo_transport ?w1
              "Some [200]" None None None]
  have n1: "ParseNextLinkHeader page_next = Some ''https://x/y?page=2''"
    using T1 l1 by blast
  have n2: "ParseNextLinkHeader page_prev = None"
    using T2 l2 no by blast
  have n3: "ParseNextLinkHeader resp200 = None"
    using T3 l3 by blast
  have P2: "PaginatedRequest demo_env demo_transport ?w1 (Some ''https://x/y?page=2'')
              (Some [200]) None None None = ([(page_prev, ''two'')], None, demo_transport, ?w2)"
    using T2 u2 R2 n2 by blast
  have P1: "PaginatedRequest demo_env demo_transport ?w0 (Some ''https://x/y'')
              (Some [200]) None None None =
            (case PaginatedRequest demo_env demo_transport ?w1 (Some ''https://x/y?page=2'')
                    (Some [200]) None None None of
               (pages, r) \<Rightarrow> ((page_next, ''one'') # pages, r))"
    using T1 u1 R1 n1 by blast
  show ?thesis
    unfolding P1 P2 using n1 n2 n3 by simp
qed

section \<open>The challenge of the ping (C5)\<close>

lemma split_on_no_sep: "c \<notin> set a \<Longrightarrow> split_on c a = [a]"
  by (induction a) auto

lemma split_on_append: "c \<notin> set a \<Longrightarrow> split_on c (a @ c # b) = a # split_on c b"
  by (induction a) auto

lemma split_on_two:
  "c \<notin> set a \<Longrightarrow> c \<notin> set b \<Longrightarrow> split_on c (a @ c # b) = [a, b]"
  by (simp add: split_on_append split_on_no_sep)

lemma strip_quoted:
  assumes "S = [] \<or> (hd S \<noteq> q \<and> last S \<noteq> q)"
  shows "strip [q] (q # S @ [q]) = S"
proof (cases S)
  case Nil
  then show ?thesis by (simp add: strip_def)
next
  case (Cons x xs)
  with assms have x: "x \<noteq> q" and l: "last S \<noteq> q" by auto
  have "dropWhile (\<lambda>c. c \<in> set [q]) (q # S @ [q]) = S @ [q]"
    using Cons x by simp
  moreover have "dropWhile (\<lambda>c. c \<in> set [q]) (rev (S @ [q])) = rev S"
  proof -
    have "rev S \<noteq> []" using Cons by simp
    moreover have "hd (rev S) \<noteq> q" using l Cons by (metis hd_rev list.distinct(1))
    ultimately show ?thesis by (cases "rev S") auto
  qed
  ultimately show ?thesis by (simp add: strip_def)
qed

lemma Ping_token_realm:
  assumes "R = [] \<or> (hd R \<noteq> CHR 0x22 \<and> last R \<noteq> CHR 0x22)"
  shows "Ping_token (''realm=\"'' @ R @ ''\"'') self = self\<lparr>realm := Some R\<rparr>"
  using strip_quoted [OF assms]
  by (simp add: Ping_token_def REALM_PFX_def startswith_def)

lemma Ping_token_service:
  assumes "S = [] \<or> (hd S \<noteq> CHR 0x22 \<and> last S \<noteq> CHR 0x22)"
  shows "Ping_token (''service=\"'' @ S @ ''\"'') self = self\<lparr>service := Some S\<rparr>"
  using strip_quoted [OF assms]
  by (simp add: Ping_token_def REALM_PFX_def SERVICE_PFX_def startswith_def)

lemma fold_Ping_token_no_service:
  "\<forall>t \<in> set ts. \<not> startswith t SERVICE_PFX
   \<Longrightarrow> service (fold Ping_token ts self) = service self"
  by (induction ts arbitrary: self) (simp_all add: Ping_token_def)

lemma Ping_bearer_challenge:
  assumes "pending w = (resp, content) # rest" and "status resp = 401"
    and "map_of (resp_headers resp) ''www-authenticate'' = Some challenge"
    and "challenge = ''Bearer '' @ toks"
  shows "Ping e self w =
     (let self2 = fold Ping_token (split_on CHR '','' toks) (self\<lparr>service := Some (registry self)\<rparr>);
          w1 = w\<lparr>pending := rest, calls := calls w @ [ping_request e self]\<rparr>
      in case realm self2 of
           None \<Rightarrow> (Inl AttributeError, self2, w1)
         | Some r \<Rightarrow>
            (if r = [] then
               (Inl (BadStateException (''Expected a \"realm=\" in \"www-authenticate\" header: ''
                                        @ challenge)), self2, w1)
             else (Inr (), self2, w1)))"
  using assms
  by (simp add: Ping_def Let_def transport_request_def UNAUTHORIZED_def ping_request_def
        CHALLENGE_def REALM_PFX_def startswith_def split: option.splits)

lemma Ping_Inr_service:
  assumes "pending w = (resp, content) # rest"
    and "map_of (resp_headers resp) ''www-authenticate'' = Some challenge"
    and "\<forall>t \<in> set (split_on CHR '','' (drop (length CHALLENGE) challenge)).
           \<not> startswith t SERVICE_PFX"
    and "Ping e self w = (Inr (), self1, w1)"
  shows "service self1 = Some (registry self)"
  using assms
  by (auto simp: Ping_def Let_def transport_request_def fold_Ping_token_no_service
           split: sum.splits option.splits if_splits)

text \<open>
  C5, as amended. The ping is answered with 401 and a challenge. When the challenge is
  \<open>Bearer realm="R",service="S"\<close> or \<open>Bearer service="S",realm="R"\<close>, with nothing
  but the comma between the two attributes, \<open>R\<close> and \<open>S\<close> free of commas and neither
  starting nor ending with a double quote, and \<open>R\<close> not empty, \<open>_Ping\<close> returns with
  realm \<open>R\<close> and service \<open>S\<close>. When the challenge is \<open>Bearer realm="R"\<close>, and more
  generally whenever \<open>_Ping\<close> returns and no comma-separated token of the challenge
  starts with \<open>service=\<close>, the service is the registry host, the one the URL of the
  ping was built from.
\<close>

theorem Ping_challenge_parsed:
  assumes "pending w = (resp, content) # rest" and "status resp = 401"
    and "map_of (resp_headers resp) ''www-authenticate'' = Some challenge"
    and "CHR '','' \<notin> set R" and "CHR '','' \<notin> set S"
    and "R \<noteq> []" and "hd R \<noteq> CHR 0x22" and "last R \<noteq> CHR 0x22"
    and "S = [] \<or> (hd S \<noteq> CHR 0x22 \<and> last S \<noteq> CHR 0x22)"
  shows "(challenge = ''Bearer realm=\"'' @ R @ ''\",service=\"'' @ S @ ''\"''
          \<or> challenge = ''Bearer service=\"'' @ S @ ''\",realm=\"'' @ R @ ''\"''
          \<longrightarrow> Ping e self w =
                (Inr (), self\<lparr>realm := Some R, service := Some S\<rparr>,
                 w\<lparr>pending := rest, calls := calls w @ [ping_request e self]\<rparr>))
       \<and> (challenge = ''Bearer realm=\"'' @ R @ ''\"''
          \<longrightarrow> Ping e self w =
                (Inr (), self\<lparr>realm := Some R, service := Some (registry self)\<rparr>,
                 w\<lparr>pending := rest, calls := calls w @ [ping_request e self]\<rparr>))
       \<and> (\<forall>self1 w1.
            (\<forall>t \<in> set (split_on CHR '','' (drop (length CHALLENGE) challenge)).
               \<not> startswith t SERVICE_PFX)
            \<and> Ping e self w = (Inr (), self1, w1)
          \<longrightarrow> service self1 = Some (registry self))
       \<and> req_url (ping_request e self) = Scheme (registry self) @ ''://'' @ registry self @ ''/v2/''"
proof (intro conjI allI impI)
  have Rq: "R = [] \<or> (hd R \<noteq> CHR 0x22 \<and> last R \<noteq> CHR 0x22)"
    using assms(7,8) by simp
  have ca: "CHR '','' \<notin> set (''realm=\"'' @ R @ ''\"'')"
    using assms(4) by simp
  have cb: "CHR '','' \<notin> set (''service=\"'' @ S @ ''\"'')"
    using assms(5) by simp
  {
    assume c: "challenge = ''Bearer realm=\"'' @ R @ ''\",service=\"'' @ S @ ''\"''
          \<or> challenge = ''Bearer service=\"'' @ S @ ''\",realm=\"'' @ R @ ''\"''"
    show "Ping e self w =
                (Inr (), self\<lparr>realm := Some R, service := Some S\<rparr>,
                 w\<lparr>pending := rest, calls := calls w @ [ping_request e self]\<rparr>)"
      using c
    proof
      assume c1: "challenge = ''Bearer realm=\"'' @ R @ ''\",service=\"'' @ S @ ''\"''"
      then have ch: "challenge = ''Bearer '' @ ((''realm=\"'' @ R @ ''\"'') @ CHR '','' #
                                    (''service=\"'' @ S @ ''\"''))"
        by simp
      show ?thesis
        unfolding Ping_bearer_challenge [OF assms(1-3) ch] split_on_two [OF ca cb]
        using assms(6)
        by (simp add: Let_def Ping_token_realm [OF Rq, simplified]
              Ping_token_service [OF assms(9), simplified])
    next
      assume c2: "challenge = ''Bearer service=\"'' @ S @ ''\",realm=\"'' @ R @ ''\"''"
      then have ch: "challenge = ''Bearer '' @ ((''service=\"'' @ S @ ''\"'') @ CHR '','' #
                                    (''realm=\"'' @ R @ ''\"''))"
        by simp
      show ?thesis
        unfolding Ping_bearer_challenge [OF assms(1-3) ch] split_on_two [OF cb ca]
        using assms(6)
        by (simp add: Let_def Ping_token_realm [OF Rq, simplified]
              Ping_token_service [OF assms(9), simplified])
    qed
  }
  {
    assume c3: "challenge = ''Bearer realm=\"'' @ R @ ''\"''"
    then have ch: "challenge = ''Bearer '' @ (''realm=\"'' @ R @ ''\"'')"
      by simp
    show "Ping e self w =
                (Inr (), self\<lparr>realm := Some R, service := Some (registry self)\<rparr>,
                 w\<lparr>pending := rest, calls := calls w @ [ping_request e self]\<rparr>)"
      unfolding Ping_bearer_challenge [OF assms(1-3) ch] split_on_no_sep [OF ca]
      using assms(6)
      by (simp add: Let_def Ping_token_realm [OF Rq, simplified])
  }
  {
    fix self1 w1
    assume "(\<forall>t \<in> set (split_on CHR '','' (drop (length CHALLENGE) challenge)).
               \<not> startswith t SERVICE_PFX)
            \<and> Ping e self w = (Inr (), self1, w1)"
    then show "service self1 = Some (registry self)"
      using Ping_Inr_service [OF assms(1,3)] by blast
  }
  show "req_url (ping_request e self) = Scheme (registry self) @ ''://'' @ registry self @ ''/v2/''"
    by (simp add: ping_request_def)
qed

theorem Ping_challenge_parsed_witness:
  "Ping demo_env fresh_transport
     \<lparr>pending = [(challenge_response
         ''Bearer service=\"registry.example.com\",realm=\"https://auth.example.com/token\"'', [])],
      calls = []\<rparr> =
     (Inr (), fresh_transport\<lparr>realm := Some ''https://auth.example.com/token'',
                              service := Some ''registry.example.com''\<rparr>,
      \<lparr>pending = [], calls = [ping_request demo_env fresh_transport]\<rparr>)
   \<and> Ping demo_env fresh_transport
     \<lparr>pending = [(challenge_response ''Bearer realm=\"https://auth.example.com/token\"'', [])],
      calls = []\<rparr> =
     (Inr (), fresh_transport\<lparr>realm := Some ''https://auth.example.com/token'',
                              service := Some ''gcr.io''\<rparr>,
      \<lparr>pending = [], calls = [ping_request demo_env fresh_transport]\<rparr>)
   \<and> list_all (\<lambda>t. \<not> startswith t SERVICE_PFX)
         (split_on CHR '','' (drop (length CHALLENGE)
            ''Bearer realm=\"https://auth.example.com/token\"''))
   \<and> req_url (ping_request demo_env fresh_transport) = ''https://gcr.io/v2/''"
proof -
  have ns: "\<forall>t \<in> set (split_on CHR '','' (drop (length CHALLENGE)
                    ''Bearer realm=\"https://auth.example.com/token\"'')).
         \<not> startswith t SERVICE_PFX"
    by (simp add: CHALLENGE_def SERVICE_PFX_def startswith_def)
  let ?R = "''https://auth.example.com/token''"
  let ?S = "''registry.example.com''"
  let ?c1 = "''Bearer service=\"registry.example.com\",realm=\"https://auth.example.com/token\"''"
  let ?c2 = "''Bearer realm=\"https://auth.example.com/token\"''"
  have p1: "pending \<lparr>pending = [(challenge_response ?c1, [])], calls = []\<rparr>
              = (challenge_response ?c1, []) # []" by simp
  have p2: "pending \<lparr>pending = [(challenge_response ?c2, [])], calls = []\<rparr>
              = (challenge_response ?c2, []) # []" by simp
  have st: "\<And>c. status (challenge_response c) = 401"
    and hd: "\<And>c. map_of (resp_headers (challenge_response c)) ''www-authenticate'' = Some c"
    by (simp_all add: challenge_response_def)
  have r: "CHR '','' \<notin> set ?R" "?R \<noteq> []" "hd ?R \<noteq> CHR 0x22" "last ?R \<noteq> CHR 0x22"
    by simp_all
  have s: "CHR '','' \<notin> set ?S" "?S = [] \<or> (hd ?S \<noteq> CHR 0x22 \<and> last ?S \<noteq> CHR 0x22)"
    by simp_all
  have reg: "registry fresh_transport = ''gcr.io''" by (simp add: fresh_transport_def)
  have sch: "Scheme ''gcr.io'' = ''https''" by (simp add: Scheme_def startswith_def)
  from Ping_challenge_parsed [OF p1 st hd r(1) s(1) r(2,3,4) s(2), of demo_env fresh_transport]
       Ping_challenge_parsed [OF p2 st hd r(1) s(1) r(2,3,4) s(2), of demo_env fresh_transport]
  show ?thesis using ns by (simp add: reg sch list_all_iff)
qed

text \<open>
  C5 as the claim states it fails once there is white space after the comma: a token
  that starts with a blank is not recognised, so the service named in the challenge is
  ignored and the service stays the registry host; and when it is the realm that follows
  the blank, no realm is found at all.
\<close>

theorem Ping_whitespace_counterexample:
  "Ping demo_env fresh_transport
     \<lparr>pending = [(challenge_response
         ''Bearer realm=\"https://auth.example.com/token\", service=\"registry.example.com\"'', [])],
      calls = []\<rparr> =
     (Inr (), fresh_transport\<lparr>realm := Some ''https://auth.example.com/token'',
                              service := Some ''gcr.io''\<rparr>,
      \<lparr>pending = [], calls = [ping_request demo_env fresh_transport]\<rparr>)
   \<and> fst (Ping demo_env fresh_transport
     \<lparr>pending = [(challenge_response
         ''Bearer service=\"registry.example.com\", realm=\"https://auth.example.com/token\"'', [])],
      calls = []\<rparr>) = Inl AttributeError"
  by (simp add: Ping_def Let_def transport_request_def UNAUTHORIZED_def ping_request_def
        CHALLENGE_def startswith_def fresh_transport_def Ping_token_def REALM_PFX_def
        SERVICE_PFX_def strip_def demo_env_def Scheme_def challenge_response_def)

end
